theory Spec2Isabelle
  imports Main
begin

section \<open>Strings of the JavaScript runtime\<close>

text \<open>
  Strings are lists of 8-bit characters, read as the code units U+0000 to U+00FF.
  Every pattern of the source mentions ASCII characters only, so a code unit outside
  this range could only ever be matched by a negated class or by the dot.
\<close>

definition digit_chars :: "char list" where
  "digit_chars = ''0123456789''"

text \<open>The white space and line terminators of \<open>\s\<close> and of \<open>trim\<close> below U+0100.\<close>

definition space_chars :: "char list" where
  "space_chars = [CHR 0x09, CHR 0x0A, CHR 0x0B, CHR 0x0C, CHR 0x0D, CHR 0x20, CHR 0xA0]"

definition line_terminators :: "char list" where
  "line_terminators = [CHR 0x0A, CHR 0x0D]"

definition toLowerChar :: "char \<Rightarrow> char" where
  "toLowerChar c =
     (let n = (of_char c :: int)
      in if (65 \<le> n \<and> n \<le> 90) \<or> (192 \<le> n \<and> n \<le> 222 \<and> n \<noteq> 215)
         then char_of (n + 32) else c)"

definition toUpperChar :: "char \<Rightarrow> char" where
  "toUpperChar c =
     (let n = (of_char c :: int)
      in if (97 \<le> n \<and> n \<le> 122) \<or> (224 \<le> n \<and> n \<le> 254 \<and> n \<noteq> 247)
         then char_of (n - 32) else c)"

definition toLowerCase :: "string \<Rightarrow> string" where
  "toLowerCase s = map toLowerChar s"

definition trim :: "string \<Rightarrow> string" where
  "trim s = rev (dropWhile (\<lambda>c. c \<in> set space_chars)
              (rev (dropWhile (\<lambda>c. c \<in> set space_chars) s)))"

fun includes_str :: "string \<Rightarrow> string \<Rightarrow> bool" where
  "includes_str [] sub = (sub = [])"
| "includes_str (x # xs) sub = (take (length sub) (x # xs) = sub \<or> includes_str xs sub)"

definition digit_char :: "int \<Rightarrow> char" where
  "digit_char d = digit_chars ! nat (d mod 10)"

text \<open>The last \<open>k\<close> decimal digits of \<open>n\<close>, and the decimal text of a number.\<close>

fun pad :: "nat \<Rightarrow> int \<Rightarrow> string" where
  "pad 0 n = []"
| "pad (Suc k) n = pad k (n div 10) @ [digit_char n]"

function show_pos :: "int \<Rightarrow> string" where
  "show_pos n = (if n < 10 then [digit_char n] else show_pos (n div 10) @ [digit_char n])"
  by pat_completeness auto
termination
  by (relation "measure nat") auto

definition show_int :: "int \<Rightarrow> string" where
  "show_int i = (if i < 0 then CHR ''-'' # show_pos (- i) else show_pos i)"

definition show_nat :: "nat \<Rightarrow> string" where
  "show_nat n = show_pos (int n)"

text \<open>\<open>parseInt\<close> on a capture of \<open>\d{1,2}\<close> or \<open>\d{4}\<close>: decimal digits only.\<close>

definition digit_val :: "char \<Rightarrow> int" where
  "digit_val c = int (length (takeWhile (\<lambda>d. d \<noteq> c) digit_chars))"

definition parseInt :: "string \<Rightarrow> int" where
  "parseInt s = foldl (\<lambda>acc c. 10 * acc + digit_val c) 0 s"

section \<open>Regular expressions\<close>

text \<open>
  The fragment of JavaScript regular expressions that the source uses: a repeated
  character class (negated or not, with bounds, greedy or lazy), a literal, sequence,
  alternative, capture group, negative lookahead and the empty pattern (for
  \<open>(?:...)?\<close>). None of the source's patterns looks behind, so a match at a position
  depends on the text from that position on only.
  \<open>rx_match r s\<close> lists every way \<open>r\<close> matches a prefix of \<open>s\<close>, in the order in
  which the backtracking matcher tries them, each with its captures and the unread rest;
  the head of the list is the match that \<open>exec\<close> reports at this position.
  A capture is kept as the text from where the group began and the text after it ended.
\<close>

datatype rx =
    Chars bool "char list" nat "nat option" bool
  | Lit string
  | Seq rx rx
  | Alt rx rx
  | Grp rx
  | NegLook rx
  | Eps

type_synonym span = "string \<times> string"

definition cap_text :: "span \<Rightarrow> string" where
  "cap_text sp = take (length (fst sp) - length (snd sp)) (fst sp)"

definition in_cls :: "bool \<Rightarrow> char list \<Rightarrow> char \<Rightarrow> bool" where
  "in_cls neg cs c = (if neg then c \<notin> set cs else c \<in> set cs)"

text \<open>The rests after reading 0, 1, 2, ... characters of the class, at most \<open>hi\<close>.\<close>

fun runs :: "(char \<Rightarrow> bool) \<Rightarrow> nat option \<Rightarrow> string \<Rightarrow> string list" where
  "runs p hi [] = [[]]"
| "runs p hi (c # cs) =
     (c # cs) # (if p c \<and> hi \<noteq> Some 0 then runs p (map_option (\<lambda>h. h - 1) hi) cs else [])"

fun lit_match :: "string \<Rightarrow> string \<Rightarrow> string option" where
  "lit_match [] s = Some s"
| "lit_match (l # ls) [] = None"
| "lit_match (l # ls) (c # cs) = (if c = l then lit_match ls cs else None)"

fun rx_match :: "rx \<Rightarrow> string \<Rightarrow> (span list \<times> string) list" where
  "rx_match (Chars neg cs lo hi greedy) s =
     (let rs = drop lo (runs (in_cls neg cs) hi s)
      in map (\<lambda>r. ([], r)) (if greedy then rev rs else rs))"
| "rx_match (Lit l) s = (case lit_match l s of None \<Rightarrow> [] | Some r \<Rightarrow> [([], r)])"
| "rx_match (Seq a b) s =
     concat (map (\<lambda>(c1, r1). map (\<lambda>(c2, r2). (c1 @ c2, r2)) (rx_match b r1)) (rx_match a s))"
| "rx_match (Alt a b) s = rx_match a s @ rx_match b s"
| "rx_match (Grp a) s = map (\<lambda>(c, r). ((s, r) # c, r)) (rx_match a s)"
| "rx_match (NegLook a) s = (if rx_match a s = [] then [([], s)] else [])"
| "rx_match Eps s = [([], s)]"

definition seqs :: "rx list \<Rightarrow> rx" where
  "seqs rs = foldr Seq rs Eps"

definition alts :: "rx list \<Rightarrow> rx" where
  "alts rs = foldr Alt rs (NegLook Eps)"

text \<open>
  A literal under the \<open>i\<close> flag: each of its characters matches in either case. (The
  literals of the source are ASCII, where the canonical form of a character is its
  upper case.)
\<close>

definition LitI :: "string \<Rightarrow> rx" where
  "LitI l = seqs (map (\<lambda>c. Chars False [c, toLowerChar c, toUpperChar c] 1 (Some 1) True) l)"

text \<open>
  The leftmost match at or after the start of \<open>s\<close>: the text before it, the matched
  text (\<open>match[0]\<close>), the captures (\<open>match[1]\<close>, ...) and the text after it.
\<close>

fun rx_search :: "rx \<Rightarrow> string \<Rightarrow> (string \<times> string \<times> string list \<times> string) option" where
  "rx_search r [] =
     (case rx_match r [] of
        [] \<Rightarrow> None
      | (c, rest) # _ \<Rightarrow> Some ([], [], map cap_text c, rest))"
| "rx_search r (x # xs) =
     (case rx_match r (x # xs) of
        [] \<Rightarrow> map_option (\<lambda>(pre, m, c, rest). (x # pre, m, c, rest)) (rx_search r xs)
      | (c, rest) # _ \<Rightarrow> Some ([], cap_text (x # xs, rest), map cap_text c, rest))"

lemma runs_rest: "r \<in> set (runs p hi s) \<Longrightarrow> length r \<le> length s"
  by (induction p hi s rule: runs.induct) (auto split: if_splits)

lemma lit_match_rest: "lit_match l s = Some r \<Longrightarrow> length r \<le> length s"
  by (induction l s rule: lit_match.induct) (auto split: if_splits)

lemma rx_match_rest: "(c, rest) \<in> set (rx_match r s) \<Longrightarrow> length rest \<le> length s"
proof (induction r arbitrary: c rest s)
  case (Chars neg cs lo hi greedy)
  then have "rest \<in> set (drop lo (runs (in_cls neg cs) hi s))"
    by (auto simp: Let_def split: if_splits)
  then show ?case
    using runs_rest in_set_dropD by fast
next
  case (Seq a b)
  then obtain c1 r1 c2 where "(c1, r1) \<in> set (rx_match a s)" "(c2, rest) \<in> set (rx_match b r1)"
    by auto
  with Seq.IH show ?case by fastforce
next
  case (Lit l)
  then have "lit_match l s = Some rest"
    by (auto split: option.splits)
  then show ?case by (rule lit_match_rest)
qed (auto split: if_splits)

lemma rx_search_rest:
  "rx_search r s = Some (pre, m, c, rest) \<Longrightarrow>
     length rest \<le> length s \<and> (m \<noteq> [] \<longrightarrow> length rest < length s)"
proof (induction s arbitrary: pre)
  case Nil
  then show ?case
    using rx_match_rest [of _ _ r "[]"] by (auto split: list.splits)
next
  case (Cons x xs)
  show ?case
  proof (cases "rx_match r (x # xs)")
    case Nil
    with Cons.prems obtain pre' where "rx_search r xs = Some (pre', m, c, rest)"
      by auto
    with Cons.IH show ?thesis by fastforce
  next
    case (Cons p ps)
    with Cons.prems obtain c' where "p = (c', rest)" "m = cap_text (x # xs, rest)"
      by (auto split: prod.splits)
    moreover from Cons \<open>p = (c', rest)\<close> have "length rest \<le> length (x # xs)"
      using rx_match_rest [of c' rest r "x # xs"] by simp
    ultimately show ?thesis by (auto simp: cap_text_def)
  qed
qed

text \<open>
  \<open>[...text.matchAll(r)]\<close> with the \<open>g\<close> flag: each match with its captures, the next
  search starting where the match ended (one character further after an empty match).
\<close>

function matchAll :: "rx \<Rightarrow> string \<Rightarrow> (string \<times> string list) list" where
  "matchAll r s =
     (case rx_search r s of
        None \<Rightarrow> []
      | Some (pre, m, c, rest) \<Rightarrow>
          (m, c) # (if m = [] then (case rest of [] \<Rightarrow> [] | _ # t \<Rightarrow> matchAll r t)
                    else matchAll r rest))"
  by pat_completeness auto
termination
proof (relation "measure (\<lambda>(r, s). length s)")
  show "wf (measure (\<lambda>(r, s). length s))" by simp
next
  fix r s x2 pre y m ya c rest x21 t
  assume "rx_search r s = Some x2" "(pre, y) = x2" "(m, ya) = y" "(c, rest) = ya"
    "m = []" "rest = x21 # t"
  then have "rx_search r s = Some (pre, m, c, rest)" by simp
  from rx_search_rest [OF this] \<open>rest = x21 # t\<close>
  show "((r, t), (r, s)) \<in> measure (\<lambda>(r, s). length s)" by simp
next
  fix r s x2 pre y m ya c rest
  assume "rx_search r s = Some x2" "(pre, y) = x2" "(m, ya) = y" "(c, rest) = ya" "m \<noteq> []"
  then have "rx_search r s = Some (pre, m, c, rest)" by simp
  from rx_search_rest [OF this] \<open>m \<noteq> []\<close>
  show "((r, rest), (r, s)) \<in> measure (\<lambda>(r, s). length s)" by simp
qed

text \<open>\<open>s.replace(r, repl)\<close> with the \<open>g\<close> flag and a replacement without \<open>$\<close>.\<close>

function replace :: "rx \<Rightarrow> string \<Rightarrow> string \<Rightarrow> string" where
  "replace r repl s =
     (case rx_search r s of
        None \<Rightarrow> s
      | Some (pre, m, c, rest) \<Rightarrow>
          pre @ repl @ (if m = [] then (case rest of [] \<Rightarrow> [] | x # t \<Rightarrow> x # replace r repl t)
                        else replace r repl rest))"
  by pat_completeness auto
termination
proof (relation "measure (\<lambda>(r, repl, s). length s)")
  show "wf (measure (\<lambda>(r, repl, s). length s))" by simp
next
  fix r and repl :: string and s x2 pre y m ya c rest x21 t
  assume "rx_search r s = Some x2" "(pre, y) = x2" "(m, ya) = y" "(c, rest) = ya"
    "m = []" "rest = x21 # t"
  then have "rx_search r s = Some (pre, m, c, rest)" by simp
  from rx_search_rest [OF this] \<open>rest = x21 # t\<close>
  show "((r, repl, t), (r, repl, s)) \<in> measure (\<lambda>(r, repl, s). length s)" by simp
next
  fix r and repl :: string and s x2 pre y m ya c rest
  assume "rx_search r s = Some x2" "(pre, y) = x2" "(m, ya) = y" "(c, rest) = ya" "m \<noteq> []"
  then have "rx_search r s = Some (pre, m, c, rest)" by simp
  from rx_search_rest [OF this] \<open>m \<noteq> []\<close>
  show "((r, repl, rest), (r, repl, s)) \<in> measure (\<lambda>(r, repl, s). length s)" by simp
qed


section \<open>Dates of the JavaScript runtime\<close>

text \<open>
  A \<open>Date\<close> is its time value, the milliseconds since 1970-01-01T00:00:00Z, or
  \<open>None\<close> for an invalid date (time value NaN). The calendar is the proleptic
  Gregorian one. The local time zone is a fixed offset \<open>tz\<close> in milliseconds
  (local time = UTC + \<open>tz\<close>; 0 on a runtime set to UTC).
\<close>

definition msPerDay :: int where
  "msPerDay = 86400000"

text \<open>Day number of a civil date (month 1 to 12), and back.\<close>

definition days_from_civil :: "int \<Rightarrow> int \<Rightarrow> int \<Rightarrow> int" where
  "days_from_civil y m d =
     (let y' = (if m \<le> 2 then y - 1 else y);
          era = y' div 400;
          yoe = y' - era * 400;
          doy = (153 * (if m > 2 then m - 3 else m + 9) + 2) div 5 + d - 1;
          doe = yoe * 365 + yoe div 4 - yoe div 100 + doy
      in era * 146097 + doe - 719468)"

definition civil_from_days :: "int \<Rightarrow> int \<times> int \<times> int" where
  "civil_from_days z =
     (let z' = z + 719468;
          era = z' div 146097;
          doe = z' - era * 146097;
          yoe = (doe - doe div 1460 + doe div 36524 - doe div 146096) div 365;
          doy = doe - (365 * yoe + yoe div 4 - yoe div 100);
          mp = (5 * doy + 2) div 153;
          d = doy - (153 * mp + 2) div 5 + 1;
          m = (if mp < 10 then mp + 3 else mp - 9);
          y = yoe + era * 400
      in (if m \<le> 2 then y + 1 else y, m, d))"

text \<open>\<open>MakeDay\<close>: the month is an index from 0 and may lie outside 0..11, the day
  outside the month; both carry over.\<close>

definition MakeDay :: "int \<Rightarrow> int \<Rightarrow> int \<Rightarrow> int" where
  "MakeDay year month date = days_from_civil (year + month div 12) (month mod 12 + 1) 1 + date - 1"

text \<open>\<open>new Date(year, monthIndex, day)\<close>: local midnight; a year from 0 to 99 means
  1900 + year; a NaN argument gives an invalid date.\<close>

definition newDate :: "int \<Rightarrow> int option \<Rightarrow> int option \<Rightarrow> int option \<Rightarrow> int option" where
  "newDate tz year month day =
     (case (year, month, day) of
        (Some y, Some m, Some d) \<Rightarrow>
          Some (MakeDay (if 0 \<le> y \<and> y \<le> 99 then 1900 + y else y) m d * msPerDay - tz)
      | _ \<Rightarrow> None)"

definition getFullYear :: "int \<Rightarrow> int \<Rightarrow> int" where
  "getFullYear tz t = fst (civil_from_days ((t + tz) div msPerDay))"

definition getMonth :: "int \<Rightarrow> int \<Rightarrow> int" where
  "getMonth tz t = fst (snd (civil_from_days ((t + tz) div msPerDay))) - 1"

definition getDate :: "int \<Rightarrow> int \<Rightarrow> int" where
  "getDate tz t = snd (snd (civil_from_days ((t + tz) div msPerDay)))"

text \<open>\<open>d.setMonth(d.getMonth() + k)\<close>: the local date moves, the local time of day stays.\<close>

definition addMonths :: "int \<Rightarrow> int \<Rightarrow> int \<Rightarrow> int" where
  "addMonths tz k t =
     (let l = t + tz
      in MakeDay (getFullYear tz t) (getMonth tz t + k) (getDate tz t) * msPerDay
         + l mod msPerDay - tz)"

text \<open>\<open>toISOString\<close> of a valid date, in UTC: \<open>YYYY-MM-DDTHH:mm:ss.sssZ\<close>, the year with a
  sign and six digits outside 0..9999. \<open>isoDate\<close> is its part before the \<open>T\<close>, for a day
  number.\<close>

definition isoDate :: "int \<Rightarrow> string" where
  "isoDate day =
     (case civil_from_days day of (y, m, d) \<Rightarrow>
        (if 0 \<le> y \<and> y \<le> 9999 then pad 4 y
         else (if y < 0 then ''-'' else ''+'') @ pad 6 \<bar>y\<bar>)
        @ ''-'' @ pad 2 m @ ''-'' @ pad 2 d)"

definition toISOString :: "int \<Rightarrow> string" where
  "toISOString t =
     (let ms = t mod msPerDay
      in isoDate (t div msPerDay)
         @ ''T'' @ pad 2 (ms div 3600000) @ '':'' @ pad 2 (ms div 60000 mod 60)
         @ '':'' @ pad 2 (ms div 1000 mod 60) @ ''.'' @ pad 3 (ms mod 1000) @ ''Z'')"

text \<open>
  What the runtime supplies and the source only calls: the clock, the time zone,
  \<open>new Date(string)\<close> (\<open>None\<close> for an invalid date), \<open>new URL(string).hostname\<close>
  (\<open>None\<close> when the constructor throws) and \<open>toLocaleDateString\<close>.
\<close>

record runtime =
  rt_now :: int
  rt_tz :: int
  rt_parseDate :: "string \<Rightarrow> int option"
  rt_hostname :: "string \<Rightarrow> string option"
  rt_localeDate :: "int option \<Rightarrow> string"

section \<open>scan-local-events: the date heuristic\<close>

definition monthNames :: "string list" where
  "monthNames = [''january'', ''february'', ''march'', ''april'', ''may'', ''june'',
     ''july'', ''august'', ''september'', ''october'', ''november'', ''december'']"

definition rx_d12 :: rx where "rx_d12 = Chars False digit_chars 1 (Some 2) True"
definition rx_d4 :: rx where "rx_d4 = Chars False digit_chars 4 (Some 4) True"
definition rx_sep :: rx where "rx_sep = Chars False ''/-'' 1 (Some 1) True"
definition rx_not_digit :: rx where "rx_not_digit = NegLook (Chars False digit_chars 1 (Some 1) True)"
definition rx_sp1 :: rx where "rx_sp1 = Chars False space_chars 1 None True"
definition rx_sp0 :: rx where "rx_sp0 = Chars False space_chars 0 None True"
definition rx_month :: rx where "rx_month = alts (map LitI monthNames)"

definition datePatterns :: "rx list" where
  "datePatterns =
     [seqs [Grp rx_d12, rx_sep, Grp rx_d12, rx_sep, Grp rx_d4],
      seqs [Grp rx_d12, rx_sep, Grp rx_d12, rx_not_digit],
      seqs [Grp rx_month, rx_sp1, Grp rx_d12, Chars False '','' 0 (Some 1) True, rx_sp0, Grp rx_d4],
      seqs [Grp rx_month, rx_sp1, Grp rx_d12, rx_not_digit],
      seqs [Grp rx_d12, rx_sp1, Grp rx_month, rx_sp1, Grp rx_d4],
      seqs [Grp rx_d12, rx_sp1, Grp rx_month, NegLook (seqs [rx_sp1, rx_d4])]]"

text \<open>\<open>match[i]\<close> for \<open>i \<ge> 1\<close>: \<open>None\<close> is \<open>undefined\<close>.\<close>

definition grp :: "string list \<Rightarrow> nat \<Rightarrow> string option" where
  "grp caps i = (if 0 < i \<and> i \<le> length caps then Some (caps ! (i - 1)) else None)"

text \<open>\<open>parseInt\<close> of text that starts with decimal digits, NaN (\<open>None\<close>) when it starts
  with none; the captures it is given are digit strings.\<close>

definition parseIntOpt :: "string \<Rightarrow> int option" where
  "parseIntOpt s =
     (let ds = takeWhile (\<lambda>c. c \<in> set digit_chars) s
      in if ds = [] then None else Some (parseInt ds))"

definition findIndex :: "('a \<Rightarrow> bool) \<Rightarrow> 'a list \<Rightarrow> int" where
  "findIndex P xs = (if list_ex P xs then int (length (takeWhile (\<lambda>x. \<not> P x) xs)) else - 1)"

text \<open>The body of the \<open>try\<close> for one match: the date it builds (\<open>None\<close> when invalid).\<close>

definition eventDateOfMatch :: "int \<Rightarrow> int \<Rightarrow> string \<times> string list \<Rightarrow> int option" where
  "eventDateOfMatch tz currentYear mt =
     (case mt of (m0, caps) \<Rightarrow>
       (case (grp caps 1, grp caps 2) of
          (Some g1, Some g2) \<Rightarrow>
            (let year = (case grp caps 3 of
                           None \<Rightarrow> Some currentYear
                         | Some g3 \<Rightarrow> if g3 = [] then Some currentYear else parseIntOpt g3)
             in if list_ex (includes_str m0) monthNames
                then (if g2 \<noteq> [] \<and> toLowerCase g2 \<in> set monthNames
                      then newDate tz year
                             (Some (findIndex (includes_str (toLowerCase g2)) monthNames))
                             (parseIntOpt g1)
                      else newDate tz year
                             (Some (findIndex (includes_str (toLowerCase g1)) monthNames))
                             (parseIntOpt g2))
                else newDate tz year (map_option (\<lambda>m. m - 1) (parseIntOpt g1)) (parseIntOpt g2))
        | _ \<Rightarrow> None))"

text \<open>The validation of a built date: \<open>nextYear + 1\<close> is \<open>currentYear + 2\<close>.\<close>

definition plausible :: "int \<Rightarrow> int \<Rightarrow> int \<Rightarrow> bool" where
  "plausible tz currentYear t =
     (currentYear \<le> getFullYear tz t \<and> getFullYear tz t \<le> (currentYear + 1) + 1 \<and>
      0 \<le> getMonth tz t \<and> getMonth tz t \<le> 11 \<and>
      1 \<le> getDate tz t \<and> getDate tz t \<le> 31)"

fun firstValidDate :: "int \<Rightarrow> int \<Rightarrow> (string \<times> string list) list \<Rightarrow> int option" where
  "firstValidDate tz cy [] = None"
| "firstValidDate tz cy (mt # mts) =
     (case eventDateOfMatch tz cy mt of
        None \<Rightarrow> firstValidDate tz cy mts
      | Some t \<Rightarrow> if plausible tz cy t then Some t else firstValidDate tz cy mts)"

text \<open>The two nested loops: each pattern in turn, each of its matches in turn; the first
  match whose date validates is returned.\<close>

fun scanPatterns :: "int \<Rightarrow> int \<Rightarrow> string \<Rightarrow> rx list \<Rightarrow> int option" where
  "scanPatterns tz cy text [] = None"
| "scanPatterns tz cy text (pattern # patterns) =
     (case firstValidDate tz cy (matchAll pattern text) of
        Some t \<Rightarrow> Some t
      | None \<Rightarrow> scanPatterns tz cy text patterns)"

definition inTextDate :: "runtime \<Rightarrow> string \<Rightarrow> string \<Rightarrow> int option" where
  "inTextDate rt title description =
     (let text = toLowerCase (title @ '' '' @ description);
          currentYear = getFullYear (rt_tz rt) (rt_now rt)
      in scanPatterns (rt_tz rt) currentYear text datePatterns)"

definition pubDateFallback :: "runtime \<Rightarrow> string \<Rightarrow> int option" where
  "pubDateFallback rt pubDate =
     (if pubDate \<noteq> [] then
        (case rt_parseDate rt pubDate of
           None \<Rightarrow> None
         | Some d \<Rightarrow>
             if getFullYear (rt_tz rt) d \<ge> getFullYear (rt_tz rt) (rt_now rt) - 1
             then Some d else None)
      else None)"

definition extractEventDate :: "runtime \<Rightarrow> string \<Rightarrow> string \<Rightarrow> string \<Rightarrow> string option" where
  "extractEventDate rt title description pubDate =
     (case inTextDate rt title description of
        Some t \<Rightarrow> Some (toISOString t)
      | None \<Rightarrow> map_option toISOString (pubDateFallback rt pubDate))"

definition isEventInDateRange :: "runtime \<Rightarrow> string \<Rightarrow> int option \<Rightarrow> int option \<Rightarrow> bool" where
  "isEventInDateRange rt eventDateStr startDate endDate =
     (case (rt_parseDate rt eventDateStr, startDate, endDate) of
        (Some eventDate, Some s, Some e) \<Rightarrow> eventDate \<ge> s \<and> eventDate \<le> e
      | _ \<Rightarrow> False)"

section \<open>scan-local-events: feed parsing and the candidate builder\<close>

record PotentialEvent =
  title :: string
  description :: string
  link :: string
  published :: string
  location :: "string option"
  source_name :: string
  source_url :: string
  event_date :: "string option"

text \<open>An item of \<open>parseXML\<close>: a field is \<open>None\<close> when its pattern found nothing.\<close>

record item =
  item_title :: "string option"
  item_description :: "string option"
  item_link :: "string option"
  item_pubDate :: "string option"

definition rx_attrs :: rx where "rx_attrs = Chars True ''>'' 0 None True"
definition rx_any_lazy :: rx where "rx_any_lazy = Chars True [] 0 None False"
definition rx_dot_lazy :: rx where "rx_dot_lazy = Chars True line_terminators 0 None False"

definition itemRegex :: rx where
  "itemRegex = seqs [LitI ''<item'', rx_attrs, Lit ''>'', Grp rx_any_lazy, LitI ''</item>'']"

definition titleRegex :: rx where
  "titleRegex = seqs [LitI ''<title'', rx_attrs, Lit ''>'', Alt (LitI ''<![CDATA['') Eps,
     Grp rx_dot_lazy, Alt (Lit '']]>'') Eps, LitI ''</title>'']"

definition descRegex :: rx where
  "descRegex = seqs [LitI ''<description'', rx_attrs, Lit ''>'', Alt (LitI ''<![CDATA['') Eps,
     Grp rx_any_lazy, Alt (Lit '']]>'') Eps, LitI ''</description>'']"

definition linkRegex :: rx where
  "linkRegex = seqs [LitI ''<link'', rx_attrs, Lit ''>'', Grp rx_dot_lazy, LitI ''</link>'']"

definition pubDateRegex :: rx where
  "pubDateRegex = seqs [LitI ''<pubDate'', rx_attrs, Lit ''>'', Grp rx_dot_lazy, LitI ''</pubDate>'']"

definition guidRegex :: rx where
  "guidRegex = seqs [LitI ''<guid'', rx_attrs, Lit ''>'', Grp rx_dot_lazy, LitI ''</guid>'']"

text \<open>\<open>content.match(r)\<close> and, when it matched, \<open>match[1].trim()\<close>.\<close>

definition field_of :: "rx \<Rightarrow> string \<Rightarrow> string option" where
  "field_of r content =
     (case rx_search r content of
        None \<Rightarrow> None
      | Some (pre, m, caps, rest) \<Rightarrow> map_option trim (grp caps 1))"

definition falsy :: "string option \<Rightarrow> bool" where
  "falsy v = (v = None \<or> v = Some [])"

definition or_else :: "string option \<Rightarrow> string \<Rightarrow> string" where
  "or_else v d = (case v of None \<Rightarrow> d | Some s \<Rightarrow> if s = [] then d else s)"

definition parseItem :: "string \<Rightarrow> item" where
  "parseItem itemContent =
     (let l = field_of linkRegex itemContent;
          g = field_of guidRegex itemContent
      in \<lparr> item_title = field_of titleRegex itemContent,
           item_description = field_of descRegex itemContent,
           item_link = (if g \<noteq> None \<and> falsy l then g else l),
           item_pubDate = field_of pubDateRegex itemContent \<rparr>)"

definition parseXML :: "string \<Rightarrow> item list" where
  "parseXML xmlString =
     map (\<lambda>(m, caps). parseItem (case grp caps 1 of None \<Rightarrow> [] | Some c \<Rightarrow> c))
       (matchAll itemRegex xmlString)"

definition tagRegex :: rx where
  "tagRegex = seqs [Lit ''<'', Chars True ''>'' 0 None True, Lit ''>'']"

definition entityRegex :: rx where
  "entityRegex = seqs [Lit ''&'', Chars True '';'' 1 None True, Lit '';'']"

definition clean :: "string \<Rightarrow> string" where
  "clean s = trim (replace entityRegex '' '' (replace tagRegex [] s))"

text \<open>The body of \<open>items.forEach\<close> for one item: the candidate it pushes, if any.\<close>

definition candidateOfItem ::
  "runtime \<Rightarrow> string \<Rightarrow> string \<Rightarrow> int option \<Rightarrow> int option \<Rightarrow> item \<Rightarrow> PotentialEvent option" where
  "candidateOfItem rt sourceUrl sourceName startDate endDate it =
     (let cleanTitle = clean (or_else (item_title it) []);
          cleanDescription = clean (or_else (item_description it) [])
      in if cleanTitle \<noteq> [] \<and> length cleanTitle > 5 then
           (let eventDate = extractEventDate rt cleanTitle cleanDescription
                              (or_else (item_pubDate it) []);
                event = \<lparr> title = cleanTitle,
                          description = cleanDescription,
                          link = or_else (item_link it) sourceUrl,
                          published = or_else (item_pubDate it) [],
                          location = None,
                          source_name = sourceName,
                          source_url = sourceUrl,
                          event_date = (if falsy eventDate then None else eventDate) \<rparr>
            in if falsy eventDate \<or> isEventInDateRange rt (the eventDate) startDate endDate
               then Some event else None)
         else None)"

text \<open>Only the first 100 items of a feed are looked at (\<open>if (index >= 100) return\<close>).\<close>

definition extractRSSEvents ::
  "runtime \<Rightarrow> string \<Rightarrow> string \<Rightarrow> string \<Rightarrow> int option \<Rightarrow> int option \<Rightarrow> PotentialEvent list" where
  "extractRSSEvents rt rssXml sourceUrl sourceName startDate endDate =
     List.map_filter (candidateOfItem rt sourceUrl sourceName startDate endDate)
       (take 100 (parseXML rssXml))"

section \<open>scan-local-events: requests, collaborators and responses\<close>

record FilteredEvent =
  event_name :: string
  event_date_f :: string
  event_location :: string
  event_summary :: string
  event_url :: string
  relevance_score :: int
  source_url_f :: string
  source_name_f :: string

record RawDataItem =
  raw_source_url :: string
  raw_content :: string

record RequestPayload =
  date_range :: "(string \<times> string) option"
  raw_data :: "RawDataItem list option"

datatype http_method = OPTIONS | POST | OtherMethod

text \<open>A request: its method and its body, \<open>Inl\<close> the message of the error when
  \<open>req.json()\<close> rejects.\<close>

type_synonym request = "http_method \<times> (string + RequestPayload)"

text \<open>A row of the table \<open>raw_events\<close>.\<close>

record raw_event =
  row_id :: string
  row_source_url :: string
  row_source_name :: "string option"
  row_raw_content :: string
  is_processed :: bool
  row_created_at :: int
  row_content_length :: int
  row_scrape_timestamp :: string
  row_apify_run_id :: "string option"
  row_error_message :: "string option"

record winery =
  winery_id :: string
  winery_name :: string
  winery_location :: string

record brief =
  brief_winery_id :: string
  suggested_theme :: string
  key_points :: "string list"
  local_event_name :: string
  local_event_date :: "string option"
  local_event_location :: string
  seasonal_context :: string

text \<open>
  What one call of the completion service comes to, as the code tells the cases apart:
  \<^item> \<open>Unreachable\<close>: \<open>fetch\<close> rejects;
  \<^item> \<open>HttpError\<close>: the response is not \<open>ok\<close>;
  \<^item> \<open>BodyNotJson\<close>: \<open>response.json()\<close> rejects;
  \<^item> \<open>NoChoices\<close>: reading \<open>choices[0]\<close> throws: the body is \<open>null\<close>, or it has no
    \<open>choices\<close> (or \<open>null\<close> there);
  \<^item> \<open>NoContent\<close>: \<open>choices[0]?.message?.content\<close> is absent or falsy (so it is when
    \<open>choices\<close> is an empty array), and the default literal (an empty list) is parsed
    in its place;
  \<^item> \<open>ContentNotJson\<close>: \<open>JSON.parse(content)\<close> throws;
  \<^item> \<open>ContentNull\<close>: the content parses to \<open>null\<close>, so that reading its key throws;
  \<^item> \<open>NoList\<close>: the content parses, and under the expected key it holds nothing, or a
    falsy value (\<open>null\<close>, \<open>false\<close>, \<open>0\<close>, the empty string): \<open>|| []\<close> applies;
  \<^item> \<open>NotList l\<close>: the content parses, and under the expected key it holds a truthy
    value that is no array: a string that is not empty, a number, \<open>true\<close> or an object.
    The code reads the \<open>length\<close> of such a value and nothing else of it; \<open>l\<close> is that
    \<open>length\<close>: the number of code units of a string, the field \<open>length\<close> of an object,
    \<open>None\<close> (\<open>undefined\<close>) for a value that has none;
  \<^item> \<open>Listed es\<close>: the content parses and holds the array \<open>es\<close> under the expected key.
  The elements of an array have the type the source declares for them, and the \<open>length\<close>
  field of an object, where there is one, is an integer.
\<close>

datatype 'a completion =
    Unreachable
  | HttpError
  | BodyNotJson
  | NoChoices
  | NoContent
  | ContentNotJson
  | ContentNull
  | NoList
  | NotList "int option"
  | Listed "'a list"

text \<open>
  What a variable that the source declares as an array holds at run time: an array, or,
  after \<open>NotList l\<close>, a value that is no array and whose \<open>length\<close> is \<open>l\<close>. Such a value
  has no \<open>map\<close> and no \<open>forEach\<close>: calling either throws a TypeError.
\<close>

datatype 'a held = Array "'a list" | NotArray "int option"

text \<open>\<open>x.length\<close>; \<open>None\<close> is \<open>undefined\<close>.\<close>

definition length_of :: "'a held \<Rightarrow> int option" where
  "length_of x = (case x of Array es \<Rightarrow> Some (int (length es)) | NotArray l \<Rightarrow> l)"

datatype winery_select = WineriesError string | Wineries "winery list option"

datatype insert_outcome = Inserted | InsertError | InsertThrows

text \<open>
  The collaborators of one run: the credential, the table \<open>raw_events\<close> and whether
  reading it fails, whether the update of a row (by id) is applied, the two completions,
  the tenant roster, and the outcome of the k-th insertion into \<open>research_briefs\<close>.
\<close>

record world =
  w_apiKey :: "string option"
  w_raw_events :: "raw_event list"
  w_selectFails :: bool
  w_updateOk :: "string \<Rightarrow> bool"
  w_gatekeeper :: "PotentialEvent completion"
  w_enrichment :: "FilteredEvent completion"
  w_wineries :: winery_select
  w_insert :: "nat \<Rightarrow> insert_outcome"

datatype json =
    JNull
  | JBool bool
  | JNum int
  | JStr string
  | JArr "json list"
  | JObj "(string \<times> json) list"

datatype body = NoBody | TextBody string | JsonBody json

record response =
  status :: nat
  body :: body

text \<open>The value of a top-level field of a JSON response body.\<close>

definition field :: "string \<Rightarrow> response \<Rightarrow> json option" where
  "field k r = (case body r of JsonBody (JObj kvs) \<Rightarrow> map_of kvs k | _ \<Rightarrow> None)"

definition ok_json :: "(string \<times> json) list \<Rightarrow> response" where
  "ok_json kvs = \<lparr> status = 200, body = JsonBody (JObj kvs) \<rparr>"

text \<open>The outer \<open>catch\<close>: status 500.\<close>

definition internal_error :: "string \<Rightarrow> response" where
  "internal_error details =
     \<lparr> status = 500,
       body = JsonBody (JObj [(''error'', JStr ''Internal server error''),
                              (''details'', JStr details)]) \<rparr>"

text \<open>\<open>Math.ceil((end - start) / (1000 * 60 * 60 * 24))\<close>.\<close>

definition duration_days :: "int \<Rightarrow> int \<Rightarrow> int" where
  "duration_days s e = - ((- (e - s)) div msPerDay)"

text \<open>The \<open>date_range\<close> object of a response; \<open>toISOString\<close> throws a RangeError on an
  invalid date (\<open>None\<close> here).\<close>

definition range_json :: "bool \<Rightarrow> int option \<Rightarrow> int option \<Rightarrow> json option" where
  "range_json with_days startDate endDate =
     (case (startDate, endDate) of
        (Some s, Some e) \<Rightarrow>
          Some (JObj ([(''start'', JStr (toISOString s)), (''end'', JStr (toISOString e))]
                      @ (if with_days then [(''duration_days'', JNum (duration_days s e))] else [])))
      | _ \<Rightarrow> None)"

definition respond :: "json option \<Rightarrow> (json \<Rightarrow> (string \<times> json) list) \<Rightarrow> response" where
  "respond rg kvs =
     (case rg of
        None \<Rightarrow> internal_error ''Invalid time value''
      | Some r \<Rightarrow> ok_json (kvs r))"

section \<open>scan-local-events: collecting the candidates\<close>

text \<open>The date window: the one of the request, else from now to three months from now.\<close>

definition resolveWindow :: "runtime \<Rightarrow> RequestPayload \<Rightarrow> int option \<times> int option" where
  "resolveWindow rt requestBody =
     (case date_range requestBody of
        Some (start_date, end_date) \<Rightarrow> (rt_parseDate rt start_date, rt_parseDate rt end_date)
      | None \<Rightarrow> (Some (rt_now rt), Some (addMonths (rt_tz rt) 3 (rt_now rt))))"

text \<open>The label of an inline source; \<open>None\<close> when \<open>new URL\<close> throws, which skips the
  source.\<close>

definition sourceNameOf :: "runtime \<Rightarrow> string \<Rightarrow> string option" where
  "sourceNameOf rt url =
     (if url = [] then Some ''Unknown Source''
      else if includes_str url ''visitloudoun'' then Some ''Visit Loudoun Events''
      else if includes_str url ''fxva.com'' then Some ''FXVA Events''
      else if includes_str url ''virginia.org'' then Some ''Virginia Tourism Events''
      else if includes_str url ''visitpwc'' then Some ''Prince William County Events''
      else if includes_str url ''visitfauquier'' then Some ''Visit Fauquier Events''
      else if includes_str url ''northernvirginiamag'' then Some ''Northern Virginia Magazine Events''
      else if includes_str url ''discoverclarkecounty'' then Some ''Discover Clarke County Events''
      else rt_hostname rt url)"

definition inlineEvents ::
  "runtime \<Rightarrow> int option \<Rightarrow> int option \<Rightarrow> RawDataItem list \<Rightarrow> PotentialEvent list" where
  "inlineEvents rt startDate endDate raws =
     concat (map (\<lambda>rawDataItem.
        case sourceNameOf rt (raw_source_url rawDataItem) of
          None \<Rightarrow> []
        | Some sourceName \<Rightarrow>
            extractRSSEvents rt (raw_content rawDataItem) (raw_source_url rawDataItem)
              sourceName startDate endDate) raws)"

text \<open>\<open>select('*').eq('is_processed', false).order('created_at')\<close>; \<open>None\<close> when the
  read fails.\<close>

definition selectUnprocessed :: "world \<Rightarrow> raw_event list option" where
  "selectUnprocessed w =
     (if w_selectFails w then None
      else Some (sort_key row_created_at (filter (\<lambda>r. \<not> is_processed r) (w_raw_events w))))"

text \<open>\<open>update({ is_processed: true }).eq('id', id)\<close> on the table.\<close>

definition markProcessed :: "string \<Rightarrow> raw_event list \<Rightarrow> raw_event list" where
  "markProcessed i tbl = map (\<lambda>r. if row_id r = i then r\<lparr>is_processed := True\<rparr> else r) tbl"

record collected =
  c_dataSource :: string
  c_events :: "PotentialEvent list"
  c_updates :: "string list"
  c_table :: "raw_event list"

text \<open>One turn of the loop over the stored rows: extract, append, then ask for the update
  (whose failure is not looked at).\<close>

definition storedStep ::
  "runtime \<Rightarrow> world \<Rightarrow> int option \<Rightarrow> int option \<Rightarrow> collected \<Rightarrow> raw_event \<Rightarrow> collected" where
  "storedStep rt w startDate endDate c rawEvent =
     c\<lparr> c_events := c_events c @
            extractRSSEvents rt (row_raw_content rawEvent) (row_source_url rawEvent)
              (or_else (row_source_name rawEvent) (row_source_url rawEvent)) startDate endDate,
        c_updates := c_updates c @ [row_id rawEvent],
        c_table := (if w_updateOk w (row_id rawEvent)
                    then markProcessed (row_id rawEvent) (c_table c) else c_table c) \<rparr>"

definition sampleEvents :: "runtime \<Rightarrow> PotentialEvent list" where
  "sampleEvents rt =
     [\<lparr> title = ''Loudoun County Wine & Food Festival'',
        description = ''Annual celebration featuring local wineries, craft breweries, and artisan food vendors. Perfect opportunity for wine tourism and local partnerships.'',
        link = ''https://visitloudoun.org/events/wine-food-festival'',
        published = toISOString (rt_now rt),
        location = None,
        source_name = ''Visit Loudoun'',
        source_url = ''https://visitloudoun.org'',
        event_date = Some (toISOString (rt_now rt + 30 * 24 * 60 * 60 * 1000)) \<rparr>,
      \<lparr> title = ''Fall Harvest Market at Historic Downtown'',
        description = ''Weekly farmers market featuring local produce, artisan goods, and live music. Great venue for wine tastings and community engagement.'',
        link = ''https://example.com/harvest-market'',
        published = toISOString (rt_now rt),
        location = None,
        source_name = ''Local Events'',
        source_url = ''https://example.com'',
        event_date = Some (toISOString (rt_now rt + 14 * 24 * 60 * 60 * 1000)) \<rparr>]"

definition collect ::
  "runtime \<Rightarrow> world \<Rightarrow> RequestPayload \<Rightarrow> int option \<Rightarrow> int option \<Rightarrow> collected" where
  "collect rt w requestBody startDate endDate =
     (case raw_data requestBody of
        Some raws \<Rightarrow>
          \<lparr> c_dataSource = ''google_apps_script_direct'',
            c_events = inlineEvents rt startDate endDate raws,
            c_updates = [], c_table = w_raw_events w \<rparr>
      | None \<Rightarrow>
          (case selectUnprocessed w of
             Some (rawEvent # rawEvents) \<Rightarrow>
               foldl (storedStep rt w startDate endDate)
                 \<lparr> c_dataSource = ''database_stored'', c_events = [],
                   c_updates = [], c_table = w_raw_events w \<rparr>
                 (rawEvent # rawEvents)
           | _ \<Rightarrow>
               \<lparr> c_dataSource = ''sample_events'', c_events = sampleEvents rt,
                 c_updates = [], c_table = w_raw_events w \<rparr>))"

section \<open>scan-local-events: gatekeeper, enrichment and fan-out\<close>

text \<open>The value of \<open>filteredEvents\<close> after the gatekeeper stage.\<close>

definition gatekeeper ::
  "string option \<Rightarrow> PotentialEvent completion \<Rightarrow> PotentialEvent list \<Rightarrow> PotentialEvent held" where
  "gatekeeper openaiApiKey reply allPotentialEvents =
     (if falsy openaiApiKey then Array allPotentialEvents
      else (case reply of
              Listed relevant_events \<Rightarrow> Array relevant_events
            | NotList l \<Rightarrow> NotArray l
            | NoContent \<Rightarrow> Array []
            | NoList \<Rightarrow> Array []
            | HttpError \<Rightarrow> Array allPotentialEvents
            | _ \<Rightarrow> Array allPotentialEvents))"

text \<open>The fallback event of the three \<open>filteredEvents.map\<close> branches (they are the same).\<close>

definition basicEvent :: "runtime \<Rightarrow> PotentialEvent \<Rightarrow> FilteredEvent" where
  "basicEvent rt event =
     \<lparr> event_name = title event,
       event_date_f = or_else (event_date event)
         (takeWhile (\<lambda>c. c \<noteq> CHR ''T'') (toISOString (rt_now rt + 30 * 24 * 60 * 60 * 1000))),
       event_location = or_else (location event) ''Location TBD'',
       event_summary = or_else (Some (description event))
         ''Marketing opportunity discovered through event scanning'',
       event_url = link event,
       relevance_score = 7,
       source_url_f = source_url event,
       source_name_f = source_name event \<rparr>"

text \<open>\<open>filteredEvents.map(event => ...)\<close>: on a value that is no array the call throws, in
  the \<open>else\<close> branch and in the \<open>catch\<close> alike, and the error leaves the stage (\<open>Inl\<close> its
  message).\<close>

definition basicEvents :: "runtime \<Rightarrow> PotentialEvent held \<Rightarrow> string + FilteredEvent held" where
  "basicEvents rt filteredEvents =
     (case filteredEvents of
        Array events \<Rightarrow> Inr (Array (map (basicEvent rt) events))
      | NotArray l \<Rightarrow> Inl ''filteredEvents.map is not a function'')"

text \<open>The value of \<open>finalEvents\<close> after the enrichment stage, or the error that leaves it.\<close>

definition enrich ::
  "runtime \<Rightarrow> string option \<Rightarrow> FilteredEvent completion \<Rightarrow> PotentialEvent held \<Rightarrow>
     string + FilteredEvent held" where
  "enrich rt openaiApiKey reply filteredEvents =
     (if falsy openaiApiKey then basicEvents rt filteredEvents
      else (case reply of
              Listed events \<Rightarrow> Inr (Array events)
            | NotList l \<Rightarrow> Inr (NotArray l)
            | NoContent \<Rightarrow> Inr (Array [])
            | NoList \<Rightarrow> Inr (Array [])
            | HttpError \<Rightarrow> basicEvents rt filteredEvents
            | _ \<Rightarrow> basicEvents rt filteredEvents))"

text \<open>The brief of one (event, winery) pair; \<open>None\<close> when building it throws, which is when
  the event's date is a non-empty text that is no date (\<open>toISOString\<close> of an invalid date).\<close>

definition makeBrief ::
  "runtime \<Rightarrow> string \<Rightarrow> int option \<Rightarrow> int option \<Rightarrow> FilteredEvent \<Rightarrow> winery \<Rightarrow> brief option" where
  "makeBrief rt dataSource startDate endDate event w =
     (let points =
            [''Event: '' @ event_name event,
             ''Date: '' @ event_date_f event,
             ''Location: '' @ event_location event,
             ''Summary: '' @ event_summary event,
             ''Event URL: '' @ event_url event,
             ''Relevance Score: '' @ show_int (relevance_score event) @ ''/10'',
             ''Source: '' @ source_url_f event,
             ''Source Name: '' @ source_name_f event,
             ''Discovered: '' @ rt_localeDate rt (Some (rt_now rt)),
             ''Data Source: '' @ dataSource,
             ''Status: Non-competitor event - safe for marketing'',
             ''Date Range: '' @ rt_localeDate rt startDate @ '' to '' @ rt_localeDate rt endDate];
          context = ''REAL NON-COMPETITOR EVENT discovered by Event Engine with AI Gatekeeper filtering. ''
            @ event_summary event @ '' This is a verified non-competitive opportunity happening ''
            @ event_date_f event @ '' for '' @ winery_name w
            @ '' to engage with the local wine community and create relevant marketing content. Event details and registration: ''
            @ event_url event;
          mk = (\<lambda>d. \<lparr> brief_winery_id = winery_id w,
                       suggested_theme = ''Event Opportunity: '' @ event_name event,
                       key_points = points,
                       local_event_name = event_name event,
                       local_event_date = d,
                       local_event_location = event_location event,
                       seasonal_context = context \<rparr>)
      in if event_date_f event = [] then Some (mk None)
         else (case rt_parseDate rt (event_date_f event) of
                 None \<Rightarrow> None
               | Some t \<Rightarrow> Some (mk (Some (toISOString t)))))"

record fan_state =
  attempts :: "brief list"
  briefsCreatedCount :: nat

text \<open>One turn of the inner loop. An insertion that returns an error or throws is logged
  and the loop goes on; the count moves only after an insertion without error.\<close>

definition fanStep ::
  "runtime \<Rightarrow> world \<Rightarrow> string \<Rightarrow> int option \<Rightarrow> int option \<Rightarrow> FilteredEvent \<Rightarrow>
     fan_state \<Rightarrow> winery \<Rightarrow> fan_state" where
  "fanStep rt w dataSource startDate endDate event st wn =
     (case makeBrief rt dataSource startDate endDate event wn of
        None \<Rightarrow> st
      | Some wineryBrief \<Rightarrow>
          (case w_insert w (length (attempts st)) of
             Inserted \<Rightarrow> st\<lparr> attempts := attempts st @ [wineryBrief],
                              briefsCreatedCount := briefsCreatedCount st + 1 \<rparr>
           | _ \<Rightarrow> st\<lparr> attempts := attempts st @ [wineryBrief] \<rparr>))"

definition fanOut ::
  "runtime \<Rightarrow> world \<Rightarrow> string \<Rightarrow> int option \<Rightarrow> int option \<Rightarrow> FilteredEvent list \<Rightarrow>
     winery list \<Rightarrow> fan_state" where
  "fanOut rt w dataSource startDate endDate finalEvents wineries =
     foldl (\<lambda>st event. foldl (fanStep rt w dataSource startDate endDate event) st wineries)
       \<lparr> attempts = [], briefsCreatedCount = 0 \<rparr> finalEvents"

section \<open>scan-local-events: the handler\<close>

record scan_result =
  sr_response :: response
  sr_table :: "raw_event list"
  sr_updates :: "string list"
  sr_attempts :: "brief list"

definition event_json :: "bool \<Rightarrow> FilteredEvent \<Rightarrow> json" where
  "event_json with_location e =
     JObj ([(''name'', JStr (event_name e)), (''date'', JStr (event_date_f e))]
           @ (if with_location then [(''location'', JStr (event_location e))] else [])
           @ [(''relevance'', JNum (relevance_score e)),
              (''source'', JStr (source_name_f e)),
              (''url'', JStr (event_url e))])"

definition source_json :: "RawDataItem \<Rightarrow> json" where
  "source_json r =
     JObj [(''source_url'', JStr (raw_source_url r)),
           (''content_length'', JNum (int (length (raw_content r))))]"

text \<open>Everything after the candidates are collected, up to the response.\<close>

definition classify ::
  "runtime \<Rightarrow> world \<Rightarrow> RequestPayload \<Rightarrow> int option \<Rightarrow> int option \<Rightarrow> string \<Rightarrow>
     PotentialEvent list \<Rightarrow> response \<times> brief list" where
  "classify rt w requestBody startDate endDate dataSource allPotentialEvents =
     (let raw_sources_processed =
            JNum (case raw_data requestBody of None \<Rightarrow> 0 | Some raws \<Rightarrow> int (length raws))
      in if allPotentialEvents = [] then
        (respond (range_json True startDate endDate) (\<lambda>rg.
           [(''success'', JBool True),
            (''message'', JStr ''No events found in the specified date range''),
            (''data_source'', JStr dataSource),
            (''raw_sources_processed'', raw_sources_processed),
            (''events_extracted'', JNum 0),
            (''events_after_gatekeeper'', JNum 0),
            (''events_final'', JNum 0),
            (''date_range'', rg)]), [])
      else
       (let filteredEvents = gatekeeper (w_apiKey w) (w_gatekeeper w) allPotentialEvents;
            events_after_gatekeeper =
              (case length_of filteredEvents of
                 None \<Rightarrow> []
               | Some n \<Rightarrow> [(''events_after_gatekeeper'', JNum n)])
        in if length_of filteredEvents = Some 0 then
          (respond (range_json False startDate endDate) (\<lambda>rg.
             [(''success'', JBool True),
              (''message'', JStr ''No relevant non-competitor events found after filtering''),
              (''data_source'', JStr dataSource),
              (''raw_sources_processed'', raw_sources_processed),
              (''events_extracted'', JNum (int (length allPotentialEvents))),
              (''events_after_gatekeeper'', JNum 0),
              (''competitor_events_filtered'', JNum (int (length allPotentialEvents))),
              (''events_final'', JNum 0),
              (''date_range'', rg)]), [])
        else
         (case enrich rt (w_apiKey w) (w_enrichment w) filteredEvents of
            Inl message \<Rightarrow> (internal_error message, [])
          | Inr (NotArray l) \<Rightarrow> (internal_error ''finalEvents.forEach is not a function'', [])
          | Inr (Array finalEvents) \<Rightarrow>
          if finalEvents = [] then
            (respond (range_json False startDate endDate) (\<lambda>rg.
               [(''success'', JBool True),
                (''message'', JStr ''No events met final quality standards''),
                (''data_source'', JStr dataSource),
                (''raw_sources_processed'', raw_sources_processed),
                (''events_extracted'', JNum (int (length allPotentialEvents)))]
               @ events_after_gatekeeper @
               [(''events_final'', JNum 0),
                (''date_range'', rg)]), [])
          else
           (case w_wineries w of
              WineriesError message \<Rightarrow>
                (internal_error (''Failed to fetch wineries: '' @ message), [])
            | Wineries roster \<Rightarrow>
               (case roster of
                  Some (wn # wns) \<Rightarrow>
                    (let wineries = wn # wns;
                         st = fanOut rt w dataSource startDate endDate finalEvents wineries
                     in (respond (range_json True startDate endDate) (\<lambda>rg.
                           [(''success'', JBool True),
                            (''message'', JStr (''FIXED Event Engine complete: processed ''
                               @ show_nat (length finalEvents) @ '' non-competitor events from ''
                               @ show_nat (case raw_data requestBody of None \<Rightarrow> 0 | Some raws \<Rightarrow> length raws)
                               @ '' sources for '' @ show_nat (length wineries) @ '' wineries'')),
                            (''data_source'', JStr dataSource),
                            (''raw_sources_processed'', raw_sources_processed),
                            (''events_extracted'', JNum (int (length allPotentialEvents)))]
                           @ events_after_gatekeeper @
                           [(''competitor_events_filtered'',
                               (case length_of filteredEvents of
                                  None \<Rightarrow> JNull
                                | Some n \<Rightarrow> JNum (int (length allPotentialEvents) - n))),
                            (''events_final'', JNum (int (length finalEvents))),
                            (''wineries_processed'', JNum (int (length wineries))),
                            (''briefs_created'', JNum (int (briefsCreatedCount st))),
                            (''content_generated'', JNum 0),
                            (''automatic_content_generation'', JBool False),
                            (''date_range'', rg),
                            (''events'', JArr (map (event_json True) finalEvents)),
                            (''sources_processed'',
                               JArr (case raw_data requestBody of
                                       None \<Rightarrow> [] | Some raws \<Rightarrow> map source_json raws))]),
                         attempts st))
                | _ \<Rightarrow>
                    (respond (range_json False startDate endDate) (\<lambda>rg.
                       [(''success'', JBool True),
                        (''message'', JStr ''Events found but no wineries to generate briefs for''),
                        (''data_source'', JStr dataSource),
                        (''events_found'', JNum (int (length finalEvents))),
                        (''date_range'', rg),
                        (''events'', JArr (map (event_json False) finalEvents))]), []))))))"

definition serve :: "runtime \<Rightarrow> world \<Rightarrow> request \<Rightarrow> scan_result" where
  "serve rt w req =
     (case req of
        (OPTIONS, _) \<Rightarrow>
          \<lparr> sr_response = \<lparr> status = 200, body = NoBody \<rparr>,
            sr_table = w_raw_events w, sr_updates = [], sr_attempts = [] \<rparr>
      | (OtherMethod, _) \<Rightarrow>
          \<lparr> sr_response = \<lparr> status = 405, body = TextBody ''Method Not Allowed'' \<rparr>,
            sr_table = w_raw_events w, sr_updates = [], sr_attempts = [] \<rparr>
      | (POST, Inl message) \<Rightarrow>
          \<lparr> sr_response = internal_error message,
            sr_table = w_raw_events w, sr_updates = [], sr_attempts = [] \<rparr>
      | (POST, Inr requestBody) \<Rightarrow>
          (let (startDate, endDate) = resolveWindow rt requestBody;
               c = collect rt w requestBody startDate endDate;
               (resp, tried) = classify rt w requestBody startDate endDate
                                 (c_dataSource c) (c_events c)
           in \<lparr> sr_response = resp, sr_table = c_table c,
                sr_updates = c_updates c, sr_attempts = tried \<rparr>))"

section \<open>ingest-raw-events: the asynchronous push\<close>

record GoogleAppsScriptEvent =
  gas_title :: string
  gas_link :: string
  gas_description :: string
  gas_pubDate :: string

text \<open>The payload: its \<open>events\<close>, \<open>None\<close> when the field is absent or is no array.\<close>

type_synonym ingest_request = "http_method \<times> (string + GoogleAppsScriptEvent list option)"

datatype batch_outcome = BatchError | BatchThrows | BatchNoData | BatchStored

text \<open>The collaborators of one push: the table, the outcome of the k-th batch insertion,
  and the id and creation time the database gives to the row stored at a position.\<close>

record ingest_world =
  i_table :: "raw_event list"
  i_batch :: "nat \<Rightarrow> batch_outcome"
  i_assign :: "nat \<Rightarrow> string \<times> int"

record ingest_result =
  ir_response :: response
  ir_table :: "raw_event list"
  ir_inserts :: "raw_event list list"

text \<open>A row as the loop builds it; id and creation time are the database's.\<close>

definition ingestSourceName :: "runtime \<Rightarrow> string \<Rightarrow> string" where
  "ingestSourceName rt lnk =
     (if lnk = [] then ''Unknown Source''
      else (case rt_hostname rt lnk of
              None \<Rightarrow> ''Invalid URL Source''
            | Some h \<Rightarrow>
                (let hostname = toLowerCase h
                 in if includes_str hostname ''visitloudoun'' then ''Visit Loudoun Events''
                    else if includes_str hostname ''fxva.com'' then ''FXVA Events''
                    else if includes_str hostname ''virginia.org'' then ''Virginia Tourism Events''
                    else if includes_str hostname ''visitpwc'' then ''Prince William County Events''
                    else if includes_str hostname ''visitfauquier'' then ''Visit Fauquier Events''
                    else if includes_str hostname ''northernvirginiamag''
                      then ''Northern Virginia Magazine Events''
                    else if includes_str hostname ''discoverclarkecounty''
                      then ''Discover Clarke County Events''
                    else hostname)))"

definition validEvent :: "GoogleAppsScriptEvent \<Rightarrow> bool" where
  "validEvent event =
     (\<not> (gas_title event = [] \<or> gas_description event = []) \<and>
      \<not> (length (gas_title event) < 5 \<or> length (gas_title event) > 500))"

definition rowOfEvent :: "runtime \<Rightarrow> GoogleAppsScriptEvent \<Rightarrow> raw_event" where
  "rowOfEvent rt event =
     \<lparr> row_id = [],
       row_source_url = (if gas_link event = [] then ''https://google-apps-script-source''
                         else gas_link event),
       row_source_name = Some (ingestSourceName rt (gas_link event)),
       row_raw_content =
         ''Title: '' @ gas_title event @ [CHR 0x0A]
         @ ''Description: '' @ gas_description event @ [CHR 0x0A]
         @ ''Link: '' @ (if gas_link event = [] then ''No link provided'' else gas_link event)
         @ [CHR 0x0A]
         @ ''Published: '' @ (if gas_pubDate event = [] then ''No date provided''
                               else gas_pubDate event),
       is_processed = False,
       row_created_at = 0,
       row_content_length = 0,
       row_scrape_timestamp = toISOString (rt_now rt),
       row_apify_run_id = Some (''google-apps-script-'' @ show_int (rt_now rt)),
       row_error_message = None \<rparr>"

function batches :: "'a list \<Rightarrow> 'a list list" where
  "batches xs = (if xs = [] then [] else take 50 xs # batches (drop 50 xs))"
  by pat_completeness auto
termination
  by (relation "measure length") auto

text \<open>The rows of a batch as the database stores them, after the rows already there.\<close>

definition storeBatch :: "ingest_world \<Rightarrow> raw_event list \<Rightarrow> raw_event list \<Rightarrow> raw_event list" where
  "storeBatch w tbl batch =
     map (\<lambda>(k, r). r\<lparr> row_id := fst (i_assign w (length tbl + k)),
                        row_created_at := snd (i_assign w (length tbl + k)) \<rparr>)
       (enumerate 0 batch)"

record ingest_state =
  is_table :: "raw_event list"
  is_batchNo :: nat
  insertedEvents :: "raw_event list"

definition ingestStep :: "ingest_world \<Rightarrow> ingest_state \<Rightarrow> raw_event list \<Rightarrow> ingest_state" where
  "ingestStep w st batch =
     (case i_batch w (is_batchNo st) of
        BatchStored \<Rightarrow>
          (let stored = storeBatch w (is_table st) batch
           in \<lparr> is_table = is_table st @ stored, is_batchNo = is_batchNo st + 1,
                insertedEvents = insertedEvents st @ stored \<rparr>)
      | _ \<Rightarrow> st\<lparr> is_batchNo := is_batchNo st + 1 \<rparr>)"

definition inserted_json :: "raw_event \<Rightarrow> json" where
  "inserted_json r =
     JObj [(''id'', JStr (row_id r)),
           (''source_name'', (case row_source_name r of None \<Rightarrow> JNull | Some n \<Rightarrow> JStr n)),
           (''content_length'', JNum (row_content_length r)),
           (''created_at'', JStr (toISOString (row_created_at r)))]"

definition ingest_serve :: "runtime \<Rightarrow> ingest_world \<Rightarrow> ingest_request \<Rightarrow> ingest_result" where
  "ingest_serve rt w req =
     (let quiet = (\<lambda>r. \<lparr> ir_response = r, ir_table = i_table w, ir_inserts = [] \<rparr>)
      in case req of
        (OPTIONS, _) \<Rightarrow> quiet \<lparr> status = 200, body = NoBody \<rparr>
      | (OtherMethod, _) \<Rightarrow> quiet \<lparr> status = 405, body = TextBody ''Method Not Allowed'' \<rparr>
      | (POST, Inl message) \<Rightarrow>
          quiet \<lparr> status = 500,
                  body = JsonBody (JObj [(''error'', JStr ''Internal server error''),
                                         (''details'', JStr message),
                                         (''timestamp'', JStr (toISOString (rt_now rt)))]) \<rparr>
      | (POST, Inr None) \<Rightarrow>
          quiet \<lparr> status = 400,
                  body = JsonBody (JObj [(''error'',
                           JStr ''Missing required field: events (must be an array)'')]) \<rparr>
      | (POST, Inr (Some events)) \<Rightarrow>
          if length events = 0 then
            quiet (ok_json [(''success'', JBool True),
                            (''message'', JStr ''No events to process''),
                            (''events_processed'', JNum 0)])
          else
            (let rawEventsToInsert = map (rowOfEvent rt) (filter validEvent events);
                 skippedEventCount = length (filter (\<lambda>e. \<not> validEvent e) events)
             in if length rawEventsToInsert = 0 then
                  quiet (ok_json [(''success'', JBool True),
                                  (''message'', JStr ''No valid events found to process''),
                                  (''events_received'', JNum (int (length events))),
                                  (''events_processed'', JNum 0),
                                  (''events_skipped'', JNum (int skippedEventCount))])
                else
                  (let bs = batches rawEventsToInsert;
                       st = foldl (ingestStep w)
                              \<lparr> is_table = i_table w, is_batchNo = 0, insertedEvents = [] \<rparr> bs;
                       totalInserted = length (insertedEvents st)
                   in \<lparr> ir_response = ok_json
                          [(''success'', JBool True),
                           (''message'', JStr (''Successfully ingested '' @ show_nat totalInserted
                              @ '' events from Google Apps Script'')),
                           (''events_received'', JNum (int (length events))),
                           (''events_processed'', JNum (int totalInserted)),
                           (''events_skipped'', JNum (int skippedEventCount)),
                           (''batches_processed'', JNum (int (length bs))),
                           (''data'', JArr (map inserted_json (insertedEvents st))),
                           (''sources_summary'',
                              JArr (map (\<lambda>n. case n of None \<Rightarrow> JNull | Some l \<Rightarrow> JStr l)
                                      (rev (remdups (rev (map row_source_name (insertedEvents st))))))),
                           (''next_steps'',
                              JArr [JStr ''Events are now available for processing by the Event Engine'',
                                    JStr ''Run the scan-local-events function to analyze and create research briefs'',
                                    JStr ''Check the raw_events table in your Supabase dashboard''])],
                        ir_table = is_table st,
                        ir_inserts = bs \<rparr>)))"

section \<open>Example inputs\<close>

text \<open>A runtime in UTC whose clock reads \<open>t\<close>, whose date parser knows the given
  texts only, which knows the host of one URL, and which writes a local date as
  year-month-day.\<close>

definition ex_runtime :: "int \<Rightarrow> (string \<times> int) list \<Rightarrow> runtime" where
  "ex_runtime t dates =
     \<lparr> rt_now = t, rt_tz = 0, rt_parseDate = map_of dates,
       rt_hostname = map_of [(''https://example.org/feed'', ''example.org'')],
       rt_localeDate = (\<lambda>d. case d of None \<Rightarrow> ''Invalid Date''
                                | Some t \<Rightarrow> isoDate (t div msPerDay)) \<rparr>"

text \<open>A request with one inline feed of one undated item, and the candidate that the
  candidate builder makes of it.\<close>

definition ex_payload :: RequestPayload where
  "ex_payload =
     \<lparr> date_range = None,
       raw_data = Some [\<lparr> raw_source_url = ''https://example.org/feed'',
                          raw_content = ''<item><title>County Fair</title><link>https://example.org/fair</link></item>'' \<rparr>] \<rparr>"

definition ex_candidate :: PotentialEvent where
  "ex_candidate =
     \<lparr> title = ''County Fair'', description = [], link = ''https://example.org/fair'',
       published = [], location = None, source_name = ''example.org'',
       source_url = ''https://example.org/feed'', event_date = None \<rparr>"

definition ex_enriched :: "string \<Rightarrow> int \<Rightarrow> FilteredEvent" where
  "ex_enriched d score =
     \<lparr> event_name = ''County Fair'', event_date_f = d, event_location = ''Leesburg'',
       event_summary = ''A fair.'', event_url = ''https://example.org/fair'',
       relevance_score = score, source_url_f = ''https://example.org/feed'',
       source_name_f = ''example.org'' \<rparr>"

definition ex_winery :: winery where
  "ex_winery = \<lparr> winery_id = ''w1'', winery_name = ''Hilltop'', winery_location = ''Purcellville'' \<rparr>"

definition ex_world :: "string option \<Rightarrow> PotentialEvent completion \<Rightarrow> FilteredEvent completion \<Rightarrow> world" where
  "ex_world k g e =
     \<lparr> w_apiKey = k, w_raw_events = [], w_selectFails = False, w_updateOk = (\<lambda>i. True),
       w_gatekeeper = g, w_enrichment = e, w_wineries = Wineries (Some [ex_winery]),
       w_insert = (\<lambda>k. Inserted) \<rparr>"

text \<open>A feed with one dated item, the runtime and the window it is read in, and the
  candidate that comes out.\<close>

definition ex_feed :: string where
  "ex_feed = ''<item><title>County Fair 3/15/2026</title></item>''"

definition ex_feed_runtime :: runtime where
  "ex_feed_runtime = ex_runtime 1793664000000 [(''2026-03-15T00:00:00.000Z'', 1773532800000)]"

definition ex_dated :: PotentialEvent where
  "ex_dated =
     \<lparr> title = ''County Fair 3/15/2026'', description = [], link = ''https://example.org'',
       published = [], location = None, source_name = ''Example'',
       source_url = ''https://example.org'', event_date = Some ''2026-03-15T00:00:00.000Z'' \<rparr>"

definition ex_row :: "string \<Rightarrow> bool \<Rightarrow> int \<Rightarrow> raw_event" where
  "ex_row i p t =
     \<lparr> row_id = i, row_source_url = ''https://example.org'', row_source_name = None,
       row_raw_content = ''Title: County Fair'', is_processed = p, row_created_at = t,
       row_content_length = 0, row_scrape_timestamp = ''2026-11-01T00:00:00.000Z'',
       row_apify_run_id = None, row_error_message = None \<rparr>"

definition ex_stored_world :: world where
  "ex_stored_world =
     (ex_world None Unreachable Unreachable)
       \<lparr> w_raw_events := [ex_row ''a'' True 1, ex_row ''b'' False 3, ex_row ''c'' False 2] \<rparr>"


definition ex_sample_runtime :: runtime where
  "ex_sample_runtime =
     ex_runtime 1793664000000
       [(''2026-12-03T00:00:00.000Z'', 1796256000000), (''2026-11-17T00:00:00.000Z'', 1794873600000)]"

definition ex_idle_world :: world where
  "ex_idle_world = (ex_world None Unreachable Unreachable) \<lparr> w_raw_events := [ex_row ''a'' True 1] \<rparr>"

definition ex_ingest_world :: ingest_world where
  "ex_ingest_world =
     \<lparr> i_table = [], i_batch = (\<lambda>k. BatchStored), i_assign = (\<lambda>k. (show_nat k, int k)) \<rparr>"

lemma ex_world_sel:
  "w_apiKey (ex_world k g e) = k"
  "w_gatekeeper (ex_world k g e) = g"
  "w_enrichment (ex_world k g e) = e"
  by (simp_all add: ex_world_def)

section \<open>The candidate builder\<close>

lemma ex_feed_candidates:
  "extractRSSEvents ex_feed_runtime ex_feed ''https://example.org'' ''Example''
     (Some 1767225600000) (Some 1798761600000) = [ex_dated]"
  by code_simp

lemma candidate_from_item:
  assumes "ev \<in> set (extractRSSEvents rt rssXml sourceUrl sourceName startDate endDate)"
  shows "\<exists>it \<in> set (take 100 (parseXML rssXml)).
           candidateOfItem rt sourceUrl sourceName startDate endDate it = Some ev"
  using assms by (auto simp: extractRSSEvents_def List.map_filter_def)

lemma toISOString_not_empty: "toISOString t \<noteq> []"
  by (simp add: toISOString_def Let_def)

lemma extractEventDate_not_empty: "extractEventDate rt ttl desc pubDate \<noteq> Some []"
  by (auto simp: extractEventDate_def toISOString_not_empty split: option.splits)

text \<open>
  C3. Every candidate that the candidate builder produces from a feed carries as its
  \<open>event_date\<close> what the date heuristic derives from its cleaned title, its cleaned
  description and its published-date text; and either there is none, or it reads as a
  time \<open>t\<close> with \<open>start \<le> t \<le> end\<close> for the window's two (valid) dates.
\<close>

theorem candidates_in_window:
  assumes "ev \<in> set (extractRSSEvents rt rssXml sourceUrl sourceName startDate endDate)"
  shows "event_date ev = extractEventDate rt (title ev) (description ev) (published ev) \<and>
         (event_date ev = None \<or>
          (\<exists>d t s e. event_date ev = Some d \<and> rt_parseDate rt d = Some t \<and>
             startDate = Some s \<and> endDate = Some e \<and> s \<le> t \<and> t \<le> e))"
proof -
  from candidate_from_item [OF assms] obtain it
    where c: "candidateOfItem rt sourceUrl sourceName startDate endDate it = Some ev"
    by blast
  define eventDate where
    "eventDate = extractEventDate rt (clean (or_else (item_title it) []))
                   (clean (or_else (item_description it) [])) (or_else (item_pubDate it) [])"
  have ne: "eventDate \<noteq> Some []"
    unfolding eventDate_def by (rule extractEventDate_not_empty)
  show ?thesis
  proof (cases eventDate)
    case None
    with c show ?thesis
      by (auto simp: candidateOfItem_def Let_def falsy_def eventDate_def [symmetric]
          split: if_splits)
  next
    case (Some d)
    with ne have "d \<noteq> []" by simp
    with c Some show ?thesis
      by (auto simp: candidateOfItem_def Let_def falsy_def isEventInDateRange_def
          eventDate_def [symmetric] split: if_splits option.splits)
  qed
qed

theorem candidates_in_window_witness:
  "ex_dated \<in> set (extractRSSEvents ex_feed_runtime ex_feed ''https://example.org'' ''Example''
      (Some 1767225600000) (Some 1798761600000)) \<and>
   event_date ex_dated = extractEventDate ex_feed_runtime (title ex_dated) (description ex_dated)
      (published ex_dated) \<and>
   (event_date ex_dated = None \<or>
    (\<exists>d t s e. event_date ex_dated = Some d \<and> rt_parseDate ex_feed_runtime d = Some t \<and>
       Some (1767225600000::int) = Some s \<and> Some (1798761600000::int) = Some e \<and> s \<le> t \<and> t \<le> e))"
proof -
  have m: "ex_dated \<in> set (extractRSSEvents ex_feed_runtime ex_feed ''https://example.org''
      ''Example'' (Some 1767225600000) (Some 1798761600000))"
    by (simp add: ex_feed_candidates)
  from m candidates_in_window [OF m] show ?thesis
    by (rule conjI)
qed

text \<open>Text made of the letter x: nothing to strip, nothing to decode, no date.\<close>

lemma rx_search_none:
  assumes "rx_match r [] = []" and "\<And>x xs. x \<in> set s \<Longrightarrow> rx_match r (x # xs) = []"
  shows "rx_search r s = None"
  using assms(2) by (induction s) (simp_all add: assms(1))

lemma month_initials:
  "map toLowerChar ''jfmasond'' = ''jfmasond''" "map toUpperChar ''jfmasond'' = ''JFMASOND''"
  by code_simp+

lemma lower_x: "toLowerChar CHR ''x'' = CHR ''x''" "toLowerChar CHR '' '' = CHR '' ''"
  by code_simp+

lemma rx_month_first:
  assumes "x \<notin> set ''jfmasondJFMASOND''"
  shows "rx_match rx_month (x # xs) = []"
  using assms month_initials
  by (simp add: rx_month_def alts_def monthNames_def LitI_def seqs_def in_cls_def)

lemma rx_month_nil: "rx_match rx_month [] = []"
  by (simp add: rx_month_def alts_def monthNames_def LitI_def seqs_def in_cls_def)

lemma rx_d12_first:
  assumes "x \<notin> set digit_chars"
  shows "rx_match rx_d12 (x # xs) = []"
  using assms by (simp add: rx_d12_def in_cls_def)

lemma rx_d12_nil: "rx_match rx_d12 [] = []"
  by (simp add: rx_d12_def)

lemma seq_grp_first_none: "rx_match a s = [] \<Longrightarrow> rx_match (Seq (Grp a) b) s = []"
  by simp

lemma date_pattern_shape:
  assumes "p \<in> set datePatterns"
  shows "\<exists>a b. p = Seq (Grp a) b \<and> (a = rx_d12 \<or> a = rx_month)"
  using assms by (auto simp: datePatterns_def seqs_def)

lemma date_pattern_none:
  assumes "set s \<subseteq> {CHR ''x'', CHR '' ''}" and "p \<in> set datePatterns"
  shows "rx_search p s = None"
proof -
  from date_pattern_shape [OF assms(2)] obtain a b
    where p: "p = Seq (Grp a) b" and a: "a = rx_d12 \<or> a = rx_month"
    by blast
  show ?thesis
  proof (rule rx_search_none)
    from a show "rx_match p [] = []"
      unfolding p by (intro seq_grp_first_none) (auto simp: rx_d12_nil rx_month_nil)
  next
    fix x xs assume "x \<in> set s"
    with assms(1) have "x \<notin> set ''jfmasondJFMASOND''" "x \<notin> set digit_chars"
      by (auto simp: digit_chars_def)
    with a show "rx_match p (x # xs) = []"
      unfolding p by (intro seq_grp_first_none) (auto simp: rx_d12_first rx_month_first)
  qed
qed

lemma matchAll_none: "rx_search p s = None \<Longrightarrow> matchAll p s = []"
  by (simp add: matchAll.simps)

lemma scanPatterns_none:
  assumes "\<And>p. p \<in> set ps \<Longrightarrow> rx_search p s = None"
  shows "scanPatterns tz cy s ps = None"
  using assms by (induction ps) (simp_all add: matchAll_none)

lemma no_date_in_plain_text: "inTextDate rt (replicate n CHR ''x'') [] = None"
proof -
  have "toLowerCase (replicate n CHR ''x'' @ '' '' @ []) = replicate n CHR ''x'' @ '' ''"
    by (simp add: toLowerCase_def lower_x)
  moreover have "set (replicate n CHR ''x'' @ '' '') \<subseteq> {CHR ''x'', CHR '' ''}"
    by auto
  ultimately show ?thesis
    by (simp add: inTextDate_def Let_def scanPatterns_none date_pattern_none del: replicate.simps)
qed

lemma replace_none: "rx_search r s = None \<Longrightarrow> replace r repl s = s"
  by (simp add: replace.simps)

lemma clean_plain:
  assumes "0 < n"
  shows "clean (replicate n CHR ''x'') = replicate n CHR ''x''"
proof -
  have tag: "rx_search tagRegex (replicate n CHR ''x'') = None"
    by (rule rx_search_none) (auto simp: tagRegex_def seqs_def)
  have ent: "rx_search entityRegex (replicate n CHR ''x'') = None"
    by (rule rx_search_none) (auto simp: entityRegex_def seqs_def)
  have dw: "dropWhile P (replicate n CHR ''x'') = replicate n CHR ''x''"
    if "\<not> P CHR ''x''" for P
    using that by (cases n) simp_all
  have "trim (replicate n CHR ''x'') = replicate n CHR ''x''"
    by (simp add: trim_def dw space_chars_def)
  with tag ent show ?thesis
    by (simp add: clean_def replace_none)
qed

lemma clean_empty: "clean [] = []"
  by code_simp

text \<open>
  C7, as stated, fails: the candidate builder has no upper bound on the title, so an
  item whose cleaned title has 501 characters yields a candidate.
\<close>

theorem long_title_counterexample:
  "map_option (\<lambda>ev. length (title ev))
     (candidateOfItem (ex_runtime 1793664000000 []) ''https://example.org'' ''Example''
        (Some 0) (Some 1)
        \<lparr> item_title = Some (replicate 501 CHR ''x''), item_description = None,
          item_link = None, item_pubDate = None \<rparr>) = Some 501"
  by (simp add: candidateOfItem_def Let_def or_else_def clean_plain clean_empty
      extractEventDate_def no_date_in_plain_text pubDateFallback_def falsy_def)

text \<open>
  C7, amended. An item yields a candidate only if its title, after the tags are stripped,
  the entities replaced and the ends trimmed, is longer than 5 characters (6 or more);
  the candidate's title is that cleaned title. No upper bound applies.
\<close>

theorem candidate_title_longer_than_five:
  assumes "ev \<in> set (extractRSSEvents rt rssXml sourceUrl sourceName startDate endDate)"
  shows "5 < length (title ev) \<and>
         (\<exists>it \<in> set (take 100 (parseXML rssXml)). title ev = clean (or_else (item_title it) []))"
proof -
  from candidate_from_item [OF assms] obtain it
    where it: "it \<in> set (take 100 (parseXML rssXml))"
      and ev: "candidateOfItem rt sourceUrl sourceName startDate endDate it = Some ev"
    by blast
  from ev have "5 < length (title ev) \<and> title ev = clean (or_else (item_title it) [])"
    by (auto simp: candidateOfItem_def Let_def split: if_splits)
  with it show ?thesis by blast
qed

theorem candidate_title_longer_than_five_witness:
  "ex_dated \<in> set (extractRSSEvents ex_feed_runtime ex_feed ''https://example.org'' ''Example''
      (Some 1767225600000) (Some 1798761600000)) \<and>
   5 < length (title ex_dated)"
  using candidate_title_longer_than_five [of ex_dated ex_feed_runtime ex_feed
          "''https://example.org''" "''Example''" "Some 1767225600000" "Some 1798761600000"]
  by (simp add: ex_feed_candidates)

section \<open>The date heuristic\<close>

lemma firstValidDate_plausible:
  "firstValidDate tz cy mts = Some t \<Longrightarrow> plausible tz cy t"
  by (induction mts) (auto split: option.splits if_splits)

lemma scanPatterns_plausible:
  "scanPatterns tz cy text ps = Some t \<Longrightarrow> plausible tz cy t"
  by (induction ps) (auto split: option.splits dest: firstValidDate_plausible)

lemma digit_codes:
  "c \<in> set digit_chars \<Longrightarrow> 48 \<le> (of_char c :: int) \<and> (of_char c :: int) \<le> 57"
  by (auto simp: digit_chars_def)

lemma lower_digit:
  assumes "toLowerChar c \<in> set digit_chars"
  shows "c \<in> set digit_chars"
proof (rule ccontr)
  assume c: "c \<notin> set digit_chars"
  let ?n = "of_char c :: int"
  from c assms have changed: "toLowerChar c \<noteq> c" by auto
  then have rng: "(65 \<le> ?n \<and> ?n \<le> 90) \<or> (192 \<le> ?n \<and> ?n \<le> 222 \<and> ?n \<noteq> 215)"
    and low: "toLowerChar c = char_of (?n + 32)"
    by (auto simp: toLowerChar_def Let_def split: if_splits)
  have "(of_char (toLowerChar c) :: int) = (?n + 32) mod 256"
    unfolding low by simp
  with digit_codes [OF assms] rng show False
    by auto
qed

lemma runs_zero: "runs p (Some 0) s = [s]"
  by (cases s) simp_all

lemma first_numeric_match:
  "rx_match (seqs [Grp rx_d12, rx_sep, Grp rx_d12, rx_sep, Grp rx_d4]) (''3/15/2025'' @ rest)
     = [([(''3/15/2025'' @ rest, ''/15/2025'' @ rest), (''15/2025'' @ rest, ''/2025'' @ rest),
          (''2025'' @ rest, rest)], rest)]"
  by (simp add: seqs_def rx_d12_def rx_sep_def rx_d4_def in_cls_def digit_chars_def runs_zero)


lemma search_first_numeric:
  assumes "\<forall>c \<in> set lp. c \<notin> set digit_chars"
  shows "rx_search (seqs [Grp rx_d12, rx_sep, Grp rx_d12, rx_sep, Grp rx_d4])
           (lp @ ''3/15/2025'' @ rest)
         = Some (lp, ''3/15/2025'', [''3'', ''15'', ''2025''], rest)"
  using assms
proof (induction lp)
  case Nil
  have "rx_search (seqs [Grp rx_d12, rx_sep, Grp rx_d12, rx_sep, Grp rx_d4]) (''3/15/2025'' @ rest)
          = Some ([], cap_text (''3/15/2025'' @ rest, rest),
                  map cap_text [(''3/15/2025'' @ rest, ''/15/2025'' @ rest),
                                (''15/2025'' @ rest, ''/2025'' @ rest), (''2025'' @ rest, rest)],
                  rest)"
    using first_numeric_match [of rest] by simp
  then show ?case
    by (simp add: cap_text_def)
next
  case (Cons x lp)
  then have "x \<notin> set digit_chars" by simp
  then have "rx_match (seqs [Grp rx_d12, rx_sep, Grp rx_d12, rx_sep, Grp rx_d4]) (x # lp @ ''3/15/2025'' @ rest) = []"
    unfolding seqs_def foldr.simps o_apply by (intro seq_grp_first_none rx_d12_first)
  with Cons show ?case by simp
qed

lemma date_of_numeric_match:
  "eventDateOfMatch 0 cy (''3/15/2025'', [''3'', ''15'', ''2025'']) = Some 1741996800000"
  by code_simp

lemma plausible_2025: "plausible 0 cy 1741996800000 = (cy \<le> 2025 \<and> 2025 \<le> cy + 2)"
proof -
  have "getFullYear 0 1741996800000 = 2025" "getMonth 0 1741996800000 = 2"
    "getDate 0 1741996800000 = 15"
    by code_simp+
  then show ?thesis
    by (simp add: plausible_def)
qed

lemma iso_2025: "toISOString 1741996800000 = ''2025-03-15T00:00:00.000Z''"
  by code_simp

lemma lower_date_text: "toLowerCase ''3/15/2025'' = ''3/15/2025''"
  by code_simp

lemma in_text_date_2025:
  assumes "rt_tz rt = 0"
    and "getFullYear 0 (rt_now rt) \<le> 2025" and "2025 \<le> getFullYear 0 (rt_now rt) + 2"
    and "\<forall>c \<in> set pre. c \<notin> set digit_chars"
  shows "inTextDate rt (pre @ ''3/15/2025'' @ post) desc = Some 1741996800000"
proof -
  let ?p = "seqs [Grp rx_d12, rx_sep, Grp rx_d12, rx_sep, Grp rx_d4]"
  let ?rest = "toLowerCase post @ toLowerCase ('' '' @ desc)"
  have lowered: "toLowerCase ((pre @ ''3/15/2025'' @ post) @ '' '' @ desc)
                = toLowerCase pre @ ''3/15/2025'' @ ?rest"
    using lower_date_text by (simp add: toLowerCase_def)
  from assms(4) have "\<forall>c \<in> set (toLowerCase pre). c \<notin> set digit_chars"
    by (auto simp: toLowerCase_def dest: lower_digit)
  from search_first_numeric [OF this, of ?rest]
  have "matchAll ?p (toLowerCase pre @ ''3/15/2025'' @ ?rest)
          = (''3/15/2025'', [''3'', ''15'', ''2025'']) # matchAll ?p ?rest"
    by (subst matchAll.simps) simp
  then have "firstValidDate 0 (getFullYear 0 (rt_now rt))
               (matchAll ?p (toLowerCase pre @ ''3/15/2025'' @ ?rest)) = Some 1741996800000"
    using assms(2,3) by (simp add: date_of_numeric_match plausible_2025)
  then show ?thesis
    unfolding inTextDate_def Let_def lowered assms(1) datePatterns_def
    by (simp del: firstValidDate.simps)
qed


text \<open>
  C6, as stated, fails in its example: what a title holding \<open>3/15/2025\<close> yields depends
  on the clock. On a runtime in UTC whose clock reads 2026-11-03, the year 2025 lies
  before the current year, the match with the year is turned down, and the pattern
  without a year then reads \<open>3/15\<close> in the current year: the result is 2026-03-15.
\<close>

theorem stale_year_counterexample:
  "extractEventDate (ex_runtime 1793664000000 []) ''Loudoun Wine Festival 3/15/2025'' [] []
     = Some ''2026-03-15T00:00:00.000Z''"
  by code_simp


text \<open>
  C6, amended. With the current year that of the runtime's clock, in its time zone:
  \<^item> an in-text match is accepted, and its date returned, only when the date built from it
    has a year from the current year to the current year + 2, a month index in 0..11
    and a day in 1..31 (all read from the built date, after the runtime has carried
    over a month or day out of range);
  \<^item> when no in-text match is accepted, the published-date hint is returned exactly when
    it is not empty, reads as a date, and its year is no earlier than the current year
    - 1; otherwise the result is none;
  \<^item> on a runtime in UTC whose current year is 2023, 2024 or 2025, a title that holds
    \<open>3/15/2025\<close> with no digit before it yields 2025-03-15 (midnight UTC), whatever
    follows it.
\<close>

theorem date_heuristic:
  "(\<forall>t. inTextDate rt ttl desc = Some t \<longrightarrow>
      extractEventDate rt ttl desc pubDate = Some (toISOString t) \<and>
      getFullYear (rt_tz rt) (rt_now rt) \<le> getFullYear (rt_tz rt) t \<and>
      getFullYear (rt_tz rt) t \<le> getFullYear (rt_tz rt) (rt_now rt) + 2 \<and>
      0 \<le> getMonth (rt_tz rt) t \<and> getMonth (rt_tz rt) t \<le> 11 \<and>
      1 \<le> getDate (rt_tz rt) t \<and> getDate (rt_tz rt) t \<le> 31) \<and>
   (inTextDate rt ttl desc = None \<longrightarrow>
      (\<forall>s. extractEventDate rt ttl desc pubDate = Some s \<longleftrightarrow>
         pubDate \<noteq> [] \<and>
         (\<exists>d. rt_parseDate rt pubDate = Some d \<and>
              getFullYear (rt_tz rt) (rt_now rt) - 1 \<le> getFullYear (rt_tz rt) d \<and>
              s = toISOString d))) \<and>
   (rt_tz rt = 0 \<and> getFullYear 0 (rt_now rt) \<le> 2025 \<and> 2025 \<le> getFullYear 0 (rt_now rt) + 2 \<and>
    (\<forall>c \<in> set pre. c \<notin> set digit_chars) \<longrightarrow>
      extractEventDate rt (pre @ ''3/15/2025'' @ post) desc pubDate
        = Some ''2025-03-15T00:00:00.000Z'')"
proof (intro conjI allI impI)
  fix t assume t: "inTextDate rt ttl desc = Some t"
  then show "extractEventDate rt ttl desc pubDate = Some (toISOString t)"
    by (simp add: extractEventDate_def)
  from t have "plausible (rt_tz rt) (getFullYear (rt_tz rt) (rt_now rt)) t"
    by (auto simp: inTextDate_def Let_def dest: scanPatterns_plausible)
  then show "getFullYear (rt_tz rt) (rt_now rt) \<le> getFullYear (rt_tz rt) t"
    and "getFullYear (rt_tz rt) t \<le> getFullYear (rt_tz rt) (rt_now rt) + 2"
    and "0 \<le> getMonth (rt_tz rt) t" and "getMonth (rt_tz rt) t \<le> 11"
    and "1 \<le> getDate (rt_tz rt) t" and "getDate (rt_tz rt) t \<le> 31"
    by (simp_all add: plausible_def)
next
  fix s assume "inTextDate rt ttl desc = None"
  then show "extractEventDate rt ttl desc pubDate = Some s \<longleftrightarrow>
         pubDate \<noteq> [] \<and>
         (\<exists>d. rt_parseDate rt pubDate = Some d \<and>
              getFullYear (rt_tz rt) (rt_now rt) - 1 \<le> getFullYear (rt_tz rt) d \<and>
              s = toISOString d)"
    by (auto simp: extractEventDate_def pubDateFallback_def split: option.splits if_splits)
next
  assume "rt_tz rt = 0 \<and> getFullYear 0 (rt_now rt) \<le> 2025 \<and> 2025 \<le> getFullYear 0 (rt_now rt) + 2 \<and>
    (\<forall>c \<in> set pre. c \<notin> set digit_chars)"
  then have "inTextDate rt (pre @ ''3/15/2025'' @ post) desc = Some 1741996800000"
    by (intro in_text_date_2025) simp_all
  then show "extractEventDate rt (pre @ ''3/15/2025'' @ post) desc pubDate
        = Some ''2025-03-15T00:00:00.000Z''"
    by (simp add: extractEventDate_def iso_2025)
qed

theorem date_heuristic_witness:
  "extractEventDate (ex_runtime 1750000000000 []) ''Loudoun Wine Festival 3/15/2025'' [] []
     = Some ''2025-03-15T00:00:00.000Z'' \<and>
   extractEventDate (ex_runtime 1750000000000 [(''2025-06-01'', 1748736000000)]) ''County Fair'' []
     ''2025-06-01'' = Some ''2025-06-01T00:00:00.000Z''"
proof -
  have y: "getFullYear 0 1750000000000 = 2025"
    by code_simp
  have none: "inTextDate (ex_runtime 1750000000000 [(''2025-06-01'', 1748736000000)]) ''County Fair'' []
                = None"
    by code_simp
  have iso: "toISOString 1748736000000 = ''2025-06-01T00:00:00.000Z''"
    by code_simp
  have y2: "getFullYear 0 1748736000000 = 2025"
    by code_simp
  from date_heuristic [of "ex_runtime 1750000000000 []" "[]" "[]" "[]" "''Loudoun Wine Festival ''" "[]"]
  have a: "extractEventDate (ex_runtime 1750000000000 []) ''Loudoun Wine Festival 3/15/2025'' [] []
     = Some ''2025-03-15T00:00:00.000Z''"
    by (simp add: ex_runtime_def y digit_chars_def)
  from date_heuristic [of "ex_runtime 1750000000000 [(''2025-06-01'', 1748736000000)]"
         "''County Fair''" "[]" "''2025-06-01''" "[]" "[]"] none
  have b: "extractEventDate (ex_runtime 1750000000000 [(''2025-06-01'', 1748736000000)]) ''County Fair'' []
     ''2025-06-01'' = Some ''2025-06-01T00:00:00.000Z''"
    by (simp add: ex_runtime_def y y2 iso)
  from a b show ?thesis by simp
qed

section \<open>The stored rows\<close>

lemma stored_fold:
  "foldl (storedStep rt w startDate endDate) c rows =
     c\<lparr> c_events := c_events c @
            concat (map (\<lambda>r. extractRSSEvents rt (row_raw_content r) (row_source_url r)
                      (or_else (row_source_name r) (row_source_url r)) startDate endDate) rows),
        c_updates := c_updates c @ map row_id rows,
        c_table := foldl (\<lambda>t r. if w_updateOk w (row_id r) then markProcessed (row_id r) t else t)
                     (c_table c) rows \<rparr>"
  by (induction rows arbitrary: c) (simp_all add: storedStep_def)

lemma marks_fold:
  "foldl (\<lambda>t r. if ok (row_id r) then markProcessed (row_id r) t else t) tbl rows =
     map (\<lambda>r. if \<exists>x \<in> set rows. row_id x = row_id r \<and> ok (row_id r)
               then r\<lparr>is_processed := True\<rparr> else r) tbl"
proof (induction rows arbitrary: tbl)
  case Nil
  then show ?case by simp
next
  case (Cons a rows)
  show ?case
    by (simp add: Cons.IH markProcessed_def) (auto simp: comp_def)
qed

lemma marks_unprocessed:
  assumes "set rows = {r \<in> set tbl. \<not> is_processed r}"
  shows "map (\<lambda>r. if \<exists>x \<in> set rows. row_id x = row_id r \<and> ok (row_id r)
               then r\<lparr>is_processed := True\<rparr> else r) tbl =
         map (\<lambda>r. if \<not> is_processed r \<and> ok (row_id r) then r\<lparr>is_processed := True\<rparr> else r) tbl"
proof (rule map_cong [OF refl])
  fix r assume "r \<in> set tbl"
  show "(if \<exists>x \<in> set rows. row_id x = row_id r \<and> ok (row_id r)
         then r\<lparr>is_processed := True\<rparr> else r) =
        (if \<not> is_processed r \<and> ok (row_id r) then r\<lparr>is_processed := True\<rparr> else r)"
  proof (cases "is_processed r")
    case True
    then have "r\<lparr>is_processed := True\<rparr> = r" by simp
    then show ?thesis by simp
  next
    case False
    with \<open>r \<in> set tbl\<close> assms have "r \<in> set rows" by simp
    with False show ?thesis by auto
  qed
qed

lemma count_one: "distinct xs \<Longrightarrow> x \<in> set xs \<Longrightarrow> count_list xs x = 1"
  by (induction xs) auto

text \<open>
  C9. On the stored-data path (no inline \<open>raw_data\<close>, the read succeeds and finds a row
  that is not processed; ids are the table's primary key), the run asks for the update
  \<open>is_processed := true\<close> of every row it read, once each, and of no other row; the
  table after the run is the table before it with \<open>is_processed\<close> true in every unprocessed
  row whose update the store applied, and nothing else changed. What a row's extraction
  yields plays no part.
\<close>

theorem stored_rows_marked_once:
  assumes "raw_data requestBody = None" and "\<not> w_selectFails w"
    and "\<exists>r \<in> set (w_raw_events w). \<not> is_processed r"
    and "distinct (map row_id (w_raw_events w))"
  shows "c_dataSource (collect rt w requestBody startDate endDate) = ''database_stored'' \<and>
         set (c_updates (collect rt w requestBody startDate endDate))
           = row_id ` {r \<in> set (w_raw_events w). \<not> is_processed r} \<and>
         (\<forall>r \<in> set (w_raw_events w). \<not> is_processed r \<longrightarrow>
            count_list (c_updates (collect rt w requestBody startDate endDate)) (row_id r) = 1) \<and>
         c_table (collect rt w requestBody startDate endDate)
           = map (\<lambda>r. if \<not> is_processed r \<and> w_updateOk w (row_id r)
                       then r\<lparr>is_processed := True\<rparr> else r) (w_raw_events w)"
proof -
  define rows where "rows = sort_key row_created_at (filter (\<lambda>r. \<not> is_processed r) (w_raw_events w))"
  have sel: "selectUnprocessed w = Some rows"
    using assms(2) by (simp add: selectUnprocessed_def rows_def)
  have set_rows: "set rows = {r \<in> set (w_raw_events w). \<not> is_processed r}"
    by (auto simp: rows_def)
  with assms(3) have "rows \<noteq> []" by auto
  then obtain r0 rs where rows: "rows = r0 # rs" by (cases rows) auto
  have dist: "distinct (map row_id rows)"
    using assms(4) by (simp add: rows_def distinct_map distinct_map_filter inj_on_def)
  have c: "collect rt w requestBody startDate endDate =
        foldl (storedStep rt w startDate endDate)
          \<lparr> c_dataSource = ''database_stored'', c_events = [], c_updates = [],
            c_table = w_raw_events w \<rparr> rows"
    using assms(1) sel rows by (simp add: collect_def)
  have upd: "c_updates (collect rt w requestBody startDate endDate) = map row_id rows"
    by (simp add: c stored_fold)
  have "c_table (collect rt w requestBody startDate endDate)
           = foldl (\<lambda>t r. if w_updateOk w (row_id r) then markProcessed (row_id r) t else t)
               (w_raw_events w) rows"
    by (simp add: c stored_fold)
  also have "\<dots> = map (\<lambda>r. if \<exists>x \<in> set rows. row_id x = row_id r \<and> w_updateOk w (row_id r)
                           then r\<lparr>is_processed := True\<rparr> else r) (w_raw_events w)"
    by (rule marks_fold)
  also have "\<dots> = map (\<lambda>r. if \<not> is_processed r \<and> w_updateOk w (row_id r)
                           then r\<lparr>is_processed := True\<rparr> else r) (w_raw_events w)"
    by (rule marks_unprocessed [OF set_rows])
  finally have tbl: "c_table (collect rt w requestBody startDate endDate)
           = map (\<lambda>r. if \<not> is_processed r \<and> w_updateOk w (row_id r)
                       then r\<lparr>is_processed := True\<rparr> else r) (w_raw_events w)" .
  have src: "c_dataSource (collect rt w requestBody startDate endDate) = ''database_stored''"
    by (simp add: c stored_fold)
  have once: "count_list (map row_id rows) (row_id r) = 1"
    if "r \<in> set (w_raw_events w)" "\<not> is_processed r" for r
    using that set_rows by (intro count_one dist) auto
  from src upd tbl once set_rows show ?thesis
    by auto
qed


theorem stored_rows_marked_once_witness:
  "count_list (c_updates (collect (ex_runtime 0 []) ex_stored_world
       \<lparr> date_range = None, raw_data = None \<rparr> (Some 0) (Some 1))) ''b'' = 1 \<and>
   c_table (collect (ex_runtime 0 []) ex_stored_world
       \<lparr> date_range = None, raw_data = None \<rparr> (Some 0) (Some 1))
     = [ex_row ''a'' True 1, ex_row ''b'' True 3, ex_row ''c'' True 2]"
  using stored_rows_marked_once [of "\<lparr> date_range = None, raw_data = None \<rparr>" ex_stored_world
          "ex_runtime 0 []" "Some 0" "Some 1"]
  by (simp add: ex_stored_world_def ex_world_def ex_row_def)

section \<open>A run without data\<close>

lemma respond_fields:
  "status (respond rg kvs) = 200 \<Longrightarrow> \<exists>r. rg = Some r"
  "field k (respond (Some r) kvs) = map_of (kvs r) k"
  "field ''events_extracted'' (respond None kvs) = None"
  by (auto simp: respond_def ok_json_def internal_error_def field_def split: option.splits)

lemma respond_valid:
  "status (respond (range_json b (Some s) (Some e)) kvs) = 200"
  "field k (respond (range_json b (Some s) (Some e)) kvs) =
     map_of (kvs (JObj ([(''start'', JStr (toISOString s)), (''end'', JStr (toISOString e))]
                        @ (if b then [(''duration_days'', JNum (duration_days s e))] else [])))) k"
  by (simp_all add: respond_def range_json_def ok_json_def field_def)

lemma classify_data_source:
  assumes "status (fst (classify rt w requestBody startDate endDate dataSource allPotentialEvents)) = 200"
  shows "field ''data_source'' (fst (classify rt w requestBody startDate endDate dataSource allPotentialEvents))
           = Some (JStr dataSource)"
  using assms
  by (auto simp: classify_def Let_def respond_def ok_json_def internal_error_def field_def
      split: option.splits if_splits winery_select.splits list.splits sum.splits held.splits)

lemma classify_extracted:
  assumes "allPotentialEvents \<noteq> []"
  shows "field ''events_extracted'' (fst (classify rt w requestBody startDate endDate dataSource allPotentialEvents))
           \<noteq> Some (JNum 0)"
  using assms
  by (auto simp: classify_def Let_def respond_def ok_json_def internal_error_def field_def
      split: option.splits if_splits winery_select.splits list.splits sum.splits held.splits)


lemma serve_post:
  "sr_response (serve rt w (POST, Inr requestBody)) =
     fst (classify rt w requestBody (fst (resolveWindow rt requestBody))
            (snd (resolveWindow rt requestBody))
            (c_dataSource (collect rt w requestBody (fst (resolveWindow rt requestBody))
                             (snd (resolveWindow rt requestBody))))
            (c_events (collect rt w requestBody (fst (resolveWindow rt requestBody))
                         (snd (resolveWindow rt requestBody)))))"
  by (simp add: serve_def split_beta Let_def)

lemma collect_samples:
  assumes "raw_data requestBody = None"
    and "w_selectFails w \<or> (\<forall>r \<in> set (w_raw_events w). is_processed r)"
  shows "collect rt w requestBody startDate endDate =
           \<lparr> c_dataSource = ''sample_events'', c_events = sampleEvents rt,
             c_updates = [], c_table = w_raw_events w \<rparr>"
proof -
  from assms(2) have "selectUnprocessed w = None \<or> selectUnprocessed w = Some []"
    by (auto simp: selectUnprocessed_def filter_empty_conv)
  with assms(1) show ?thesis
    by (auto simp: collect_def)
qed

text \<open>
  C4, as stated, fails: with no inline data and no unprocessed row the run does not stop
  at zero events. It takes two built-in sample events, reports \<open>sample_events\<close> with
  \<open>events_extracted\<close> 2, and carries them through to the fan-out.
\<close>

theorem sample_events_counterexample:
  "(let r = serve ex_sample_runtime ex_idle_world (POST, Inr \<lparr> date_range = None, raw_data = None \<rparr>)
    in (field ''data_source'' (sr_response r), field ''events_extracted'' (sr_response r),
        field ''briefs_created'' (sr_response r), map local_event_name (sr_attempts r)))
   = (Some (JStr ''sample_events''), Some (JNum 2), Some (JNum 2),
      [''Loudoun County Wine & Food Festival'', ''Fall Harvest Market at Historic Downtown''])"
  by code_simp

text \<open>
  C4, amended. When the request has no inline \<open>raw_data\<close> and the table holds no
  unprocessed row (or reading it fails), the candidates of the run are the two built-in
  sample events and its data source is \<open>sample_events\<close>: no response of the run reports
  \<open>events_extracted\<close> 0, and every response with status 200 reports the data source
  \<open>sample_events\<close>.
\<close>

theorem no_data_runs_on_samples:
  assumes "raw_data requestBody = None"
    and "w_selectFails w \<or> (\<forall>r \<in> set (w_raw_events w). is_processed r)"
  shows "c_events (collect rt w requestBody startDate endDate) = sampleEvents rt \<and>
         length (sampleEvents rt) = 2 \<and>
         c_dataSource (collect rt w requestBody startDate endDate) = ''sample_events'' \<and>
         field ''events_extracted'' (sr_response (serve rt w (POST, Inr requestBody))) \<noteq> Some (JNum 0) \<and>
         (status (sr_response (serve rt w (POST, Inr requestBody))) = 200 \<longrightarrow>
            field ''data_source'' (sr_response (serve rt w (POST, Inr requestBody)))
              = Some (JStr ''sample_events''))"
proof -
  note c = collect_samples [OF assms]
  have ne: "sampleEvents rt \<noteq> []"
    by (simp add: sampleEvents_def)
  have "field ''events_extracted'' (sr_response (serve rt w (POST, Inr requestBody))) \<noteq> Some (JNum 0)"
    unfolding serve_post c using classify_extracted [OF ne] by simp
  moreover have "field ''data_source'' (sr_response (serve rt w (POST, Inr requestBody)))
              = Some (JStr ''sample_events'')"
    if "status (sr_response (serve rt w (POST, Inr requestBody))) = 200"
    using that unfolding serve_post c using classify_data_source by simp
  ultimately show ?thesis
    by (simp add: c) (simp add: sampleEvents_def)
qed

theorem no_data_runs_on_samples_witness:
  "c_dataSource (collect ex_sample_runtime ex_idle_world \<lparr> date_range = None, raw_data = None \<rparr>
      (Some 0) (Some 1)) = ''sample_events'' \<and>
   length (c_events (collect ex_sample_runtime ex_idle_world \<lparr> date_range = None, raw_data = None \<rparr>
      (Some 0) (Some 1))) = 2 \<and>
   field ''events_extracted''
     (sr_response (serve ex_sample_runtime ex_idle_world
        (POST, Inr \<lparr> date_range = None, raw_data = None \<rparr>))) \<noteq> Some (JNum 0)"
proof -
  have h1: "raw_data \<lparr> date_range = None, raw_data = None \<rparr> = None" by simp
  have h2: "w_selectFails ex_idle_world \<or> (\<forall>r \<in> set (w_raw_events ex_idle_world). is_processed r)"
    by (simp add: ex_idle_world_def ex_row_def)
  from no_data_runs_on_samples [OF h1 h2, of ex_sample_runtime "Some 0" "Some 1"]
  show ?thesis by simp
qed

section \<open>The gatekeeper when the service is down\<close>

lemma respond_invalid:
  "startDate = None \<or> endDate = None \<Longrightarrow>
     status (respond (range_json b startDate endDate) kvs) = 500"
  by (auto simp: respond_def range_json_def internal_error_def split: option.splits)

text \<open>
  C1, as stated, fails: a reply whose content is valid JSON without the key
  \<open>relevant_events\<close> (or a reply with no content at all) cannot be read as the expected
  structure, and the gatekeeper then hands on the empty list, not the candidates.
  In the run below the request carries one feed with one item and the service answers
  the gatekeeper's call with such content: one event is extracted, none is left after
  the gatekeeper, and the run ends there.
\<close>

theorem gatekeeper_wrong_shape_counterexample:
  "(let r = sr_response (serve (ex_runtime 1793664000000 [])
              (ex_world (Some ''sk-1'') NoList Unreachable) (POST, Inr ex_payload))
    in (status r, field ''events_extracted'' r, field ''events_after_gatekeeper'' r,
        field ''message'' r))
   = (200, Some (JNum 1), Some (JNum 0),
      Some (JStr ''No relevant non-competitor events found after filtering'')) \<and>
   gatekeeper (Some ''sk-1'') NoList [ex_candidate] = Array [] \<and>
   gatekeeper (Some ''sk-1'') NoContent [ex_candidate] = Array []"
  by code_simp

text \<open>
  C1, amended. When no credential is configured, or the service is unreachable, answers
  with an error status, answers with a body that is not JSON or of which \<open>choices[0]\<close>
  cannot be read (there is no \<open>choices\<close>), or answers with content that is not JSON (or
  is \<open>null\<close>), the gatekeeper's output is the candidate list itself: every candidate,
  unchanged, in the same order.
  With a credential configured and at least one candidate, a reply of another wrong
  shape does not fail open:
  \<^item> when the reply has no content (an empty \<open>choices\<close>, for one), or its content is JSON
    that has nothing, or a falsy value, under \<open>relevant_events\<close>, the gatekeeper's output
    is the empty list: every candidate is dropped, the run asks for no insertion, and it
    answers with the no-relevant-events response (status 200, \<open>events_after_gatekeeper\<close>
    0, every extracted event counted as filtered) when both window dates are valid, and
    with status 500 when one is not;
  \<^item> when the content has under \<open>relevant_events\<close> a truthy value that is no list, the
    gatekeeper hands on that value in place of the candidates; if the value's \<open>length\<close>
    is not 0 and the enrichment stage then falls back (for want of a usable reply), the
    run fails with status 500 and asks for no insertion.
\<close>

theorem gatekeeper_fails_open:
  "(falsy openaiApiKey \<or>
    reply \<in> {Unreachable, HttpError, BodyNotJson, NoChoices, ContentNotJson, ContentNull} \<longrightarrow>
      gatekeeper openaiApiKey reply allPotentialEvents = Array allPotentialEvents) \<and>
   (\<not> falsy openaiApiKey \<and> reply \<in> {NoContent, NoList} \<longrightarrow>
      gatekeeper openaiApiKey reply allPotentialEvents = Array []) \<and>
   (\<not> falsy openaiApiKey \<and> reply = NotList l \<longrightarrow>
      gatekeeper openaiApiKey reply allPotentialEvents = NotArray l) \<and>
   (\<not> falsy (w_apiKey w) \<and> w_gatekeeper w \<in> {NoContent, NoList} \<and> allPotentialEvents \<noteq> [] \<longrightarrow>
      snd (classify rt w requestBody startDate endDate dataSource allPotentialEvents) = [] \<and>
      (startDate = None \<or> endDate = None \<longrightarrow>
         status (fst (classify rt w requestBody startDate endDate dataSource allPotentialEvents)) = 500) \<and>
      status (fst (classify rt w requestBody (Some s) (Some e) dataSource allPotentialEvents)) = 200 \<and>
      field ''message'' (fst (classify rt w requestBody (Some s) (Some e) dataSource allPotentialEvents))
        = Some (JStr ''No relevant non-competitor events found after filtering'') \<and>
      field ''events_after_gatekeeper''
        (fst (classify rt w requestBody (Some s) (Some e) dataSource allPotentialEvents))
        = Some (JNum 0) \<and>
      field ''competitor_events_filtered''
        (fst (classify rt w requestBody (Some s) (Some e) dataSource allPotentialEvents))
        = Some (JNum (int (length allPotentialEvents)))) \<and>
   (\<not> falsy (w_apiKey w) \<and> w_gatekeeper w = NotList l \<and> l \<noteq> Some 0 \<and>
    w_enrichment w \<in> {Unreachable, HttpError, BodyNotJson, NoChoices, ContentNotJson, ContentNull} \<and>
    allPotentialEvents \<noteq> [] \<longrightarrow>
      status (fst (classify rt w requestBody startDate endDate dataSource allPotentialEvents)) = 500 \<and>
      snd (classify rt w requestBody startDate endDate dataSource allPotentialEvents) = [])"
proof (intro conjI impI)
  assume "falsy openaiApiKey \<or>
    reply \<in> {Unreachable, HttpError, BodyNotJson, NoChoices, ContentNotJson, ContentNull}"
  then show "gatekeeper openaiApiKey reply allPotentialEvents = Array allPotentialEvents"
    by (auto simp: gatekeeper_def)
next
  assume "\<not> falsy openaiApiKey \<and> reply \<in> {NoContent, NoList}"
  then show "gatekeeper openaiApiKey reply allPotentialEvents = Array []"
    by (auto simp: gatekeeper_def)
next
  assume "\<not> falsy openaiApiKey \<and> reply = NotList l"
  then show "gatekeeper openaiApiKey reply allPotentialEvents = NotArray l"
    by (simp add: gatekeeper_def)
next
  assume a: "\<not> falsy (w_apiKey w) \<and> w_gatekeeper w \<in> {NoContent, NoList} \<and> allPotentialEvents \<noteq> []"
  then have g: "gatekeeper (w_apiKey w) (w_gatekeeper w) allPotentialEvents = Array []"
    by (auto simp: gatekeeper_def)
  have cl: "classify rt w requestBody sd ed dataSource allPotentialEvents =
      (respond (range_json False sd ed) (\<lambda>rg.
         [(''success'', JBool True),
          (''message'', JStr ''No relevant non-competitor events found after filtering''),
          (''data_source'', JStr dataSource),
          (''raw_sources_processed'',
             JNum (case raw_data requestBody of None \<Rightarrow> 0 | Some raws \<Rightarrow> int (length raws))),
          (''events_extracted'', JNum (int (length allPotentialEvents))),
          (''events_after_gatekeeper'', JNum 0),
          (''competitor_events_filtered'', JNum (int (length allPotentialEvents))),
          (''events_final'', JNum 0),
          (''date_range'', rg)]), [])" for sd ed
    using a by (simp add: classify_def Let_def g length_of_def)
  show "snd (classify rt w requestBody startDate endDate dataSource allPotentialEvents) = []"
    by (simp add: cl)
  show "status (fst (classify rt w requestBody startDate endDate dataSource allPotentialEvents)) = 500"
    if "startDate = None \<or> endDate = None"
    using that by (simp add: cl respond_invalid)
  show "status (fst (classify rt w requestBody (Some s) (Some e) dataSource allPotentialEvents)) = 200"
    by (simp add: cl respond_valid)
  show "field ''message'' (fst (classify rt w requestBody (Some s) (Some e) dataSource allPotentialEvents))
        = Some (JStr ''No relevant non-competitor events found after filtering'')"
    by (simp add: cl respond_valid)
  show "field ''events_after_gatekeeper''
        (fst (classify rt w requestBody (Some s) (Some e) dataSource allPotentialEvents))
        = Some (JNum 0)"
    by (simp add: cl respond_valid)
  show "field ''competitor_events_filtered''
        (fst (classify rt w requestBody (Some s) (Some e) dataSource allPotentialEvents))
        = Some (JNum (int (length allPotentialEvents)))"
    by (simp add: cl respond_valid)
next
  assume a: "\<not> falsy (w_apiKey w) \<and> w_gatekeeper w = NotList l \<and> l \<noteq> Some 0 \<and>
    w_enrichment w \<in> {Unreachable, HttpError, BodyNotJson, NoChoices, ContentNotJson, ContentNull} \<and>
    allPotentialEvents \<noteq> []"
  then have g: "gatekeeper (w_apiKey w) (w_gatekeeper w) allPotentialEvents = NotArray l"
    by (simp add: gatekeeper_def)
  from a have en: "enrich rt (w_apiKey w) (w_enrichment w) (NotArray l)
                     = Inl ''filteredEvents.map is not a function''"
    by (auto simp: enrich_def basicEvents_def)
  from a have ne: "allPotentialEvents \<noteq> []" and l0: "l \<noteq> Some 0"
    by simp_all
  have cl: "classify rt w requestBody startDate endDate dataSource allPotentialEvents =
      (internal_error ''filteredEvents.map is not a function'', [])"
    by (simp add: classify_def Let_def g en length_of_def ne l0)
  show "status (fst (classify rt w requestBody startDate endDate dataSource allPotentialEvents)) = 500"
    by (simp add: cl internal_error_def)
  show "snd (classify rt w requestBody startDate endDate dataSource allPotentialEvents) = []"
    by (simp add: cl)
qed

theorem gatekeeper_fails_open_witness:
  "gatekeeper (Some ''sk-1'') Unreachable [ex_candidate, ex_candidate\<lparr>title := ''Car Show''\<rparr>]
     = Array [ex_candidate, ex_candidate\<lparr>title := ''Car Show''\<rparr>] \<and>
   gatekeeper (Some ''sk-1'') ContentNotJson [ex_candidate] = Array [ex_candidate] \<and>
   gatekeeper None (Listed []) [ex_candidate] = Array [ex_candidate] \<and>
   gatekeeper (Some ''sk-1'') NoContent [ex_candidate] = Array [] \<and>
   gatekeeper (Some ''sk-1'') (NotList (Some 4)) [ex_candidate] = NotArray (Some 4) \<and>
   field ''events_after_gatekeeper''
     (fst (classify (ex_runtime 0 []) (ex_world (Some ''sk-1'') NoList Unreachable) ex_payload
        (Some 0) (Some 1) ''google_apps_script_direct'' [ex_candidate])) = Some (JNum 0) \<and>
   status (fst (classify (ex_runtime 0 []) (ex_world (Some ''sk-1'') NoList Unreachable) ex_payload
        None (Some 1) ''google_apps_script_direct'' [ex_candidate])) = 500 \<and>
   status (fst (classify (ex_runtime 0 []) (ex_world (Some ''sk-1'') (NotList (Some 4)) HttpError)
        ex_payload (Some 0) (Some 1) ''google_apps_script_direct'' [ex_candidate])) = 500"
  using gatekeeper_fails_open [of "Some ''sk-1''" Unreachable
          "[ex_candidate, ex_candidate\<lparr>title := ''Car Show''\<rparr>]" "Some 4"
          "ex_world (Some ''sk-1'') NoList Unreachable" "ex_runtime 0 []" ex_payload
          None "Some 1" "''google_apps_script_direct''" 0 1]
        gatekeeper_fails_open [of "Some ''sk-1''" ContentNotJson "[ex_candidate]" "Some 4"
          "ex_world (Some ''sk-1'') NoList Unreachable" "ex_runtime 0 []" ex_payload
          None "Some 1" "''google_apps_script_direct''" 0 1]
        gatekeeper_fails_open [of None "Listed []" "[ex_candidate]" "Some 4"
          "ex_world (Some ''sk-1'') NoList Unreachable" "ex_runtime 0 []" ex_payload
          "Some 0" "Some 1" "''google_apps_script_direct''" 0 1]
        gatekeeper_fails_open [of "Some ''sk-1''" NoContent "[ex_candidate]" "Some 4"
          "ex_world (Some ''sk-1'') (NotList (Some 4)) HttpError" "ex_runtime 0 []" ex_payload
          "Some 0" "Some 1" "''google_apps_script_direct''" 0 1]
        gatekeeper_fails_open [of "Some ''sk-1''" "NotList (Some 4)" "[ex_candidate]" "Some 4"
          "ex_world (Some ''sk-1'') NoList Unreachable" "ex_runtime 0 []" ex_payload
          "Some 0" "Some 1" "''google_apps_script_direct''" 0 1]
  by (simp add: falsy_def ex_world_sel)

section \<open>The enrichment fallback\<close>

lemma digit_char_in: "digit_char d \<in> set digit_chars"
  unfolding digit_char_def by (rule nth_mem) (simp add: digit_chars_def)

lemma pad_digits: "set (pad k n) \<subseteq> set digit_chars"
  by (induction k arbitrary: n) (auto simp: digit_char_in)

lemma pad_no_T: "c \<in> set (pad k n) \<Longrightarrow> c \<noteq> CHR ''T''"
  using pad_digits [of k n] by (auto simp: digit_chars_def)

lemma isoDate_no_T: "c \<in> set (isoDate day) \<Longrightarrow> c \<noteq> CHR ''T''"
  by (auto simp: isoDate_def split: prod.splits if_splits dest: pad_no_T)

lemma date_part_of_toISOString:
  "takeWhile (\<lambda>c. c \<noteq> CHR ''T'') (toISOString t) = isoDate (t div msPerDay)"
proof -
  have "takeWhile (\<lambda>c. c \<noteq> CHR ''T'') (isoDate (t div msPerDay) @ CHR ''T'' # r)
          = isoDate (t div msPerDay)" for r
    by (rule takeWhile_tail [THEN trans, rotated]) (auto dest: isoDate_no_T intro: takeWhile_eq_all_conv [THEN iffD2])
  then show ?thesis
    by (simp add: toISOString_def Let_def)
qed

lemma thirty_days_on: "(t + 2592000000) div msPerDay = t div msPerDay + 30"
  by (simp add: msPerDay_def)

text \<open>
  C8, as stated, fails: a candidate whose description is empty gets the fixed summary
  text, not its (empty) description. The item of the feed below has no description; with
  no credential configured, the brief created for it carries the fixed text.
\<close>

theorem fallback_summary_counterexample:
  "description ex_candidate = [] \<and>
   map_sum id (\<lambda>finalEvents. case finalEvents of Array es \<Rightarrow> map event_summary es | NotArray l \<Rightarrow> [])
     (enrich (ex_runtime 1793664000000 []) None Unreachable (Array [ex_candidate]))
     = Inr [''Marketing opportunity discovered through event scanning''] \<and>
   map (\<lambda>b. key_points b ! 3)
     (sr_attempts (serve (ex_runtime 1793664000000 [(''2026-12-03'', 1796256000000)])
        (ex_world None Unreachable Unreachable) (POST, Inr ex_payload)))
     = [''Summary: Marketing opportunity discovered through event scanning'']"
  by code_simp

text \<open>
  C8, amended. When no credential is configured, or the enrichment call is unreachable,
  answers with an error status, answers with a body that is not JSON or has no
  \<open>choices\<close>, or answers with content that is not JSON (or is \<open>null\<close>), the final events
  are the gatekeeper's survivors, one for one and in order, each with: \<open>event_name\<close> its
  title; \<open>event_url\<close> its link; \<open>relevance_score\<close> 7; \<open>event_summary\<close> its description,
  or the fixed text when the description is empty; \<open>event_date\<close> its upstream date, or,
  when it has none, the calendar date (UTC) of the day 30 days after now.
\<close>

theorem enrichment_fallback:
  assumes "falsy openaiApiKey \<or>
           reply \<in> {Unreachable, HttpError, BodyNotJson, NoChoices, ContentNotJson, ContentNull}"
  shows "\<exists>finalEvents.
           enrich rt openaiApiKey reply (Array filteredEvents) = Inr (Array finalEvents) \<and>
           map event_name finalEvents = map title filteredEvents \<and>
           map event_url finalEvents = map link filteredEvents \<and>
           map relevance_score finalEvents = map (\<lambda>c. 7) filteredEvents \<and>
           map event_summary finalEvents
             = map (\<lambda>c. if description c = []
                         then ''Marketing opportunity discovered through event scanning''
                         else description c) filteredEvents \<and>
           map event_date_f finalEvents
             = map (\<lambda>c. if falsy (event_date c) then isoDate (rt_now rt div msPerDay + 30)
                         else the (event_date c)) filteredEvents"
proof -
  from assms have "enrich rt openaiApiKey reply (Array filteredEvents)
                     = Inr (Array (map (basicEvent rt) filteredEvents))"
    by (auto simp: enrich_def basicEvents_def)
  then show ?thesis
    by (auto simp: basicEvent_def or_else_def falsy_def date_part_of_toISOString thirty_days_on
        split: option.splits)
qed

theorem enrichment_fallback_witness:
  "\<exists>finalEvents.
     enrich (ex_runtime 0 []) (Some ''sk-1'') ContentNotJson
       (Array [ex_candidate\<lparr>description := ''Rides and food.'',
                 event_date := Some ''2026-03-15T00:00:00.000Z''\<rparr>]) = Inr (Array finalEvents) \<and>
     map event_name finalEvents = [''County Fair''] \<and>
     map event_url finalEvents = [''https://example.org/fair''] \<and>
     map relevance_score finalEvents = [7] \<and>
     map event_summary finalEvents = [''Rides and food.''] \<and>
     map event_date_f finalEvents = [''2026-03-15T00:00:00.000Z'']"
  using enrichment_fallback [of "Some ''sk-1''" ContentNotJson "ex_runtime 0 []"
          "[ex_candidate\<lparr>description := ''Rides and food.'',
              event_date := Some ''2026-03-15T00:00:00.000Z''\<rparr>]"]
  by (simp add: falsy_def ex_candidate_def)

section \<open>The quality floor\<close>

text \<open>
  C5, as stated, fails: the list the enrichment service returns becomes the final list
  as it is, so an event it scores 3 reaches the fan-out and gets its brief. In the run
  below the gatekeeper's call fails (and passes the one candidate on), the enrichment
  service lists the event with score 3, and the one tenant's brief is created for it.
\<close>

theorem low_score_reaches_fanout_counterexample:
  "(let r = serve (ex_runtime 1793664000000 [])
              (ex_world (Some ''sk-1'') Unreachable (Listed [ex_enriched [] 3]))
              (POST, Inr ex_payload)
    in (field ''events'' (sr_response r), field ''briefs_created'' (sr_response r),
        map (\<lambda>b. key_points b ! 5) (sr_attempts r)))
   = (Some (JArr [JObj [(''name'', JStr ''County Fair''), (''date'', JStr []),
                        (''location'', JStr ''Leesburg''), (''relevance'', JNum 3),
                        (''source'', JStr ''example.org''),
                        (''url'', JStr ''https://example.org/fair'')]]),
      Some (JNum 1), [''Relevance Score: 3/10''])"
  by code_simp

text \<open>
  C5, amended. Every final event either is one of the events the enrichment service
  listed (whatever score the service gave it: the code applies no floor of its own), or
  comes from the local fallback and has the score 7.
\<close>

theorem final_event_listed_or_seven:
  assumes "enrich rt openaiApiKey reply filteredEvents = Inr (Array finalEvents)"
    and "e \<in> set finalEvents"
  shows "(\<not> falsy openaiApiKey \<and> (\<exists>events. reply = Listed events \<and> e \<in> set events)) \<or>
         (relevance_score e = 7 \<and> 6 \<le> relevance_score e)"
  using assms
  by (auto simp: enrich_def basicEvents_def basicEvent_def
      split: if_splits completion.splits held.splits)

theorem final_event_listed_or_seven_witness:
  "enrich (ex_runtime 0 []) (Some ''sk-1'') HttpError (Array [ex_candidate])
     = Inr (Array [basicEvent (ex_runtime 0 []) ex_candidate]) \<and>
   relevance_score (basicEvent (ex_runtime 0 []) ex_candidate) = 7"
  using final_event_listed_or_seven [of "ex_runtime 0 []" "Some ''sk-1''" HttpError
          "Array [ex_candidate]" "[basicEvent (ex_runtime 0 []) ex_candidate]"
          "basicEvent (ex_runtime 0 []) ex_candidate"]
  by (simp add: enrich_def basicEvents_def falsy_def)

section \<open>The fan-out\<close>







text \<open>With a window whose dates are no dates, the response is built after the fan-out
  and fails there: the run answers 500 although it has asked for its insertion.\<close>

lemma invalid_window_fails_after_fan_out:
  "(let r = serve (ex_runtime 1793664000000 [(''2026-12-03'', 1796256000000)])
              (ex_world None Unreachable Unreachable)
              (POST, Inr (ex_payload\<lparr>date_range := Some (''soon'', ''later'')\<rparr>))
    in (status (sr_response r), length (sr_attempts r))) = (500, 1)"
  by code_simp




section \<open>The asynchronous push with no events\<close>

text \<open>
  C10. A push whose \<open>events\<close> field is present and is an empty array is answered with
  status 200, \<open>success\<close> true and \<open>events_processed\<close> 0; no insertion is requested and the
  table \<open>raw_events\<close> is as it was.
\<close>

theorem ingest_empty_push:
  "status (ir_response (ingest_serve rt w (POST, Inr (Some [])))) = 200 \<and>
   field ''success'' (ir_response (ingest_serve rt w (POST, Inr (Some [])))) = Some (JBool True) \<and>
   field ''events_processed'' (ir_response (ingest_serve rt w (POST, Inr (Some [])))) = Some (JNum 0) \<and>
   ir_inserts (ingest_serve rt w (POST, Inr (Some []))) = [] \<and>
   ir_table (ingest_serve rt w (POST, Inr (Some []))) = i_table w"
  by (simp add: ingest_serve_def ok_json_def field_def)

theorem ingest_empty_push_witness:
  "status (ir_response (ingest_serve (ex_runtime 0 []) ex_ingest_world (POST, Inr (Some [])))) = 200 \<and>
   field ''events_processed''
     (ir_response (ingest_serve (ex_runtime 0 []) ex_ingest_world (POST, Inr (Some []))))
     = Some (JNum 0) \<and>
   ir_inserts (ingest_serve (ex_runtime 0 []) ex_ingest_world (POST, Inr (Some []))) = [] \<and>
   ir_table (ingest_serve (ex_runtime 0 []) ex_ingest_world (POST, Inr (Some []))) = []"
  using ingest_empty_push [of "ex_runtime 0 []" ex_ingest_world]
  by (simp add: ex_ingest_world_def)

end
